theory Spec2Isabelle
  imports Complex_Main "HOL-Library.Char_ord" "HOL-Library.List_Lexorder"
begin

section \<open>Data model of app.py\<close>

text \<open>
  The five SQLAlchemy models become records. Every model has a primary key called
  \<open>id\<close> in the source; record fields are global names, so the five keys are
  \<open>uid\<close>, \<open>pid\<close>, \<open>oid\<close>, \<open>iid\<close> and \<open>mid\<close>, and the product's \<open>name\<close> is
  \<open>pname\<close>. All other columns keep their names. The values of the Float columns
  have a type \<open>'f\<close> that is left open: what a handler does with such a value
  (multiply it by a quantity, compare two of them, read one from a form field) is a
  parameter of the handler, so nothing is assumed about rounding, infinities or NaN.
  DateTime columns are a clock value, nullable columns options.
\<close>

record user =
  uid :: int
  username :: string
  email :: string
  password_hash :: "string option"
  is_admin :: bool

record 'f product =
  pid :: int
  pname :: string
  category :: string
  material :: string
  price :: 'f
  description :: string
  image_filename :: "string option"
  date_added :: nat

record 'f order =
  oid :: int
  user_id :: int
  order_date :: nat
  total_price :: 'f
  customer_name :: string
  customer_address :: string
  customer_contact :: string
  status :: string

record 'f order_item =
  iid :: int
  order_id :: int
  product_id :: int
  quantity :: int
  price_at_order :: 'f

record message =
  mid :: int
  sender_id :: int
  receiver_id :: "int option"
  message_text :: string
  timestamp :: nat
  is_read :: bool

text \<open>
  The state a request handler reads and writes: the five tables (rows in insertion
  order), the files of the upload folder, and the user id that flask-login keeps in
  the session.
\<close>

record 'f db =
  tbl_user :: "user list"
  tbl_product :: "'f product list"
  tbl_order :: "'f order list"
  tbl_order_item :: "'f order_item list"
  tbl_message :: "message list"
  upload_folder :: "string set"
  session_user :: "int option"

datatype http_method = GET | POST

text \<open>
  What every handler reads of the request besides its own form: the method, the URL,
  the \<open>next\<close> query parameter, whether the CSRF token of a FlaskForm checks, and the
  clock (\<open>datetime.utcnow()\<close>).
\<close>

record request =
  http_method :: http_method
  url :: string
  next_arg :: "string option"
  csrf_valid :: bool
  now :: nat

text \<open>Where a redirect goes: \<open>url_for\<close> of an endpoint, or a raw URL.\<close>

datatype target =
    Home
  | LoginPage "string option"
  | UserProfile
  | MessagesPage
  | AdminProducts
  | AdminOrders
  | AdminMessages int
  | RawUrl string

text \<open>What a rendered template is given.\<close>

datatype 'f view =
    ProductsView "'f product list" "string list" "string list"
  | ProductDetailView "'f product"
  | SignupView
  | LoginView
  | AdminDashboardView nat nat nat nat
  | AdminProductsView "'f product list"
  | AddProductView
  | EditProductView "'f product"
  | AdminOrdersView "'f order list"
  | AdminUsersView "user list"
  | AdminMessagesView "user list" "user option" "message list"

datatype 'f response =
    Redirect target
  | Render "'f view"
  | NotFound
  | ServerError

text \<open>A notice is \<open>flash(message, category)\<close>, kept as (category, message).\<close>

type_synonym notice = "string \<times> string"

type_synonym 'f outcome = "'f response \<times> notice list \<times> 'f db"

section \<open>Queries and helpers\<close>

text \<open>\<open>Model.query.get(id)\<close>: the row with that primary key, if any.\<close>

definition get_user :: "'f db \<Rightarrow> int \<Rightarrow> user option" where
  "get_user s i = find (\<lambda>u. uid u = i) (tbl_user s)"

definition get_product :: "'f db \<Rightarrow> int \<Rightarrow> 'f product option" where
  "get_product s i = find (\<lambda>p. pid p = i) (tbl_product s)"

definition get_order :: "'f db \<Rightarrow> int \<Rightarrow> 'f order option" where
  "get_order s i = find (\<lambda>r. oid r = i) (tbl_order s)"

text \<open>
  \<open>current_user\<close>: \<open>load_user\<close> looks the session's id up; an empty session or an id
  with no row is the anonymous user.
\<close>

definition current_user :: "'f db \<Rightarrow> user option" where
  "current_user s = (case session_user s of None \<Rightarrow> None | Some i \<Rightarrow> get_user s i)"

text \<open>
  The key SQLite gives a new row of a table with an INTEGER PRIMARY KEY: one more than
  the largest key present, 1 in an empty table.
\<close>

definition next_id :: "int list \<Rightarrow> int" where
  "next_id ks = fold max ks 0 + 1"

text \<open>\<open>str()\<close> of an integer, for the f-strings of the notices.\<close>

definition digit_char :: "nat \<Rightarrow> char" where
  "digit_char d = ''0123456789'' ! d"

fun str_nat :: "nat \<Rightarrow> string" where
  "str_nat n = (if n < 10 then [digit_char n] else str_nat (n div 10) @ [digit_char (n mod 10)])"

declare str_nat.simps [simp del]

definition str_int :: "int \<Rightarrow> string" where
  "str_int i = (if i < 0 then CHR ''-'' # str_nat (nat (- i)) else str_nat (nat i))"

text \<open>
  \<open>form.validate_on_submit()\<close>: the request is a POST, the CSRF token checks, and
  every field validates.
\<close>

definition validate_on_submit :: "request \<Rightarrow> bool \<Rightarrow> bool" where
  "validate_on_submit rq fields_ok \<longleftrightarrow> http_method rq = POST \<and> csrf_valid rq \<and> fields_ok"

section \<open>The role gate\<close>

text \<open>
  \<open>admin_required(f)\<close> is \<open>login_required\<close> around a check of \<open>is_admin\<close>. For the
  anonymous user flask-login's \<open>unauthorized()\<close> answers: a notice of category info
  and a redirect to the login page carrying the requested URL as \<open>next\<close>.
\<close>

definition login_required :: "(request \<Rightarrow> 'f db \<Rightarrow> 'f outcome) \<Rightarrow> request \<Rightarrow> 'f db \<Rightarrow> 'f outcome" where
  "login_required f rq s =
     (case current_user s of
        None \<Rightarrow> (Redirect (LoginPage (Some (url rq))),
                 [(''info'', ''Please log in to access this page.'')], s)
      | Some u \<Rightarrow> f rq s)"

definition admin_required :: "(request \<Rightarrow> 'f db \<Rightarrow> 'f outcome) \<Rightarrow> request \<Rightarrow> 'f db \<Rightarrow> 'f outcome" where
  "admin_required f =
     login_required (\<lambda>rq s.
       case current_user s of
         None \<Rightarrow> (ServerError, [], s)
       | Some u \<Rightarrow>
           if \<not> is_admin u
           then (Redirect Home, [(''danger'', ''You do not have permission to access this page.'')], s)
           else f rq s)"

section \<open>Order status\<close>

text \<open>
  \<open>update_order_status(order_id)\<close>, the body under the role gate. \<open>new_status\<close> is
  \<open>request.form.get('status')\<close>: absent is None.
\<close>

definition valid_statuses :: "string list" where
  "valid_statuses = [''Pending'', ''Processing'', ''Shipped'', ''Delivered'', ''Cancelled'']"

definition set_status :: "int \<Rightarrow> string \<Rightarrow> 'f order list \<Rightarrow> 'f order list" where
  "set_status i st rows = map (\<lambda>r. if oid r = i then r\<lparr>status := st\<rparr> else r) rows"

definition update_order_status_body :: "int \<Rightarrow> string option \<Rightarrow> request \<Rightarrow> 'f db \<Rightarrow> 'f outcome" where
  "update_order_status_body order_key new_status rq s =
     (case get_order s order_key of
        None \<Rightarrow> (NotFound, [], s)
      | Some ord \<Rightarrow>
          (case new_status of
             Some st \<Rightarrow>
               if st \<in> set valid_statuses
               then (Redirect AdminOrders,
                     [(''success'', ''Order '' @ str_int (oid ord) @ '' status updated to '' @ st @ ''.'')],
                     s\<lparr>tbl_order := set_status (oid ord) st (tbl_order s)\<rparr>)
               else (Redirect AdminOrders, [(''danger'', ''Invalid status provided.'')], s)
           | None \<Rightarrow> (Redirect AdminOrders, [(''danger'', ''Invalid status provided.'')], s)))"

definition update_order_status :: "int \<Rightarrow> string option \<Rightarrow> request \<Rightarrow> 'f db \<Rightarrow> 'f outcome" where
  "update_order_status order_key new_status = admin_required (update_order_status_body order_key new_status)"

section \<open>Form validators\<close>

text \<open>
  A string is a list of characters with code points below 256. Among these, the
  characters that \<open>str.strip()\<close> and \<open>int()\<close> take for whitespace are the code
  points 9 to 13, 28 to 32, 133 (next line) and 160 (no-break space).
\<close>

definition is_space :: "char \<Rightarrow> bool" where
  "is_space c \<longleftrightarrow>
     (let n = of_char c :: nat
      in (9 \<le> n \<and> n \<le> 13) \<or> (28 \<le> n \<and> n \<le> 32) \<or> n = 133 \<or> n = 160)"

definition strip :: "string \<Rightarrow> string" where
  "strip t = rev (dropWhile is_space (rev (dropWhile is_space t)))"

text \<open>\<open>DataRequired\<close> on a string field: the data, stripped, is not empty.\<close>

definition data_required :: "string \<Rightarrow> bool" where
  "data_required t \<longleftrightarrow> t \<noteq> [] \<and> strip t \<noteq> []"

text \<open>\<open>Length(min, max)\<close>; a bound left out is None.\<close>

definition length_ok :: "nat option \<Rightarrow> nat option \<Rightarrow> string \<Rightarrow> bool" where
  "length_ok lo hi t \<longleftrightarrow>
     (case lo of None \<Rightarrow> True | Some a \<Rightarrow> a \<le> length t) \<and>
     (case hi of None \<Rightarrow> True | Some b \<Rightarrow> length t \<le> b)"

text \<open>
  Lower case of the 26 letters of ASCII, which is what SQLite's \<open>lower()\<close> and
  its \<open>LIKE\<close> fold.
\<close>

definition ascii_lower_char :: "char \<Rightarrow> char" where
  "ascii_lower_char c =
     (case find (\<lambda>(u, l). u = c)
             (zip ''ABCDEFGHIJKLMNOPQRSTUVWXYZ'' ''abcdefghijklmnopqrstuvwxyz'') of
        Some (u, l) \<Rightarrow> l
      | None \<Rightarrow> c)"

text \<open>
  \<open>str.lower()\<close>: besides the letters of ASCII, the capital letters at the code
  points 192 to 222 (215, the multiplication sign, is none) move up by 32.
\<close>

definition lower_char :: "char \<Rightarrow> char" where
  "lower_char c =
     (let n = of_char c :: nat
      in if 192 \<le> n \<and> n \<le> 222 \<and> n \<noteq> 215 then char_of (n + 32) else ascii_lower_char c)"

definition lower :: "string \<Rightarrow> string" where
  "lower t = map lower_char t"

text \<open>
  \<open>int(t)\<close> in base ten: whitespace around the number is dropped, one sign may come
  first, and the digits may be grouped by single underscores between two digits.
  Anything else raises ValueError (None). The flag of \<open>int_digits\<close> tells whether
  the character before was a digit. (The bound that recent interpreters put on the
  number of digits is left out.)
\<close>

definition digit_val :: "char \<Rightarrow> nat option" where
  "digit_val c = (let n = of_char c :: nat in if 48 \<le> n \<and> n \<le> 57 then Some (n - 48) else None)"

fun int_digits :: "nat \<Rightarrow> bool \<Rightarrow> string \<Rightarrow> nat option" where
  "int_digits acc after_digit [] = (if after_digit then Some acc else None)"
| "int_digits acc after_digit (c # cs) =
     (if c = CHR ''_'' then (if after_digit then int_digits acc False cs else None)
      else (case digit_val c of
              None \<Rightarrow> None
            | Some d \<Rightarrow> int_digits (10 * acc + d) True cs))"

definition py_int :: "string \<Rightarrow> int option" where
  "py_int t =
     (case strip t of
        [] \<Rightarrow> None
      | c # cs \<Rightarrow>
          if c = CHR ''-'' then map_option (\<lambda>n. - int n) (int_digits 0 False cs)
          else if c = CHR ''+'' then map_option int (int_digits 0 False cs)
          else map_option int (int_digits 0 False (c # cs)))"

section \<open>Placing an order\<close>

text \<open>The data of an \<open>OrderForm\<close> as submitted.\<close>

record order_form =
  f_customer_name :: string
  f_customer_address :: string
  f_customer_contact :: string
  f_quantity :: string

definition quantity_choices :: "string list" where
  "quantity_choices = map (\<lambda>i. str_nat i) [1 ..< 6]"

definition order_form_ok :: "order_form \<Rightarrow> bool" where
  "order_form_ok f \<longleftrightarrow>
     data_required (f_customer_name f) \<and> length_ok None (Some 100) (f_customer_name f) \<and>
     data_required (f_customer_address f) \<and> length_ok None (Some 200) (f_customer_address f) \<and>
     data_required (f_customer_contact f) \<and> length_ok None (Some 20) (f_customer_contact f) \<and>
     data_required (f_quantity f) \<and> f_quantity f \<in> set quantity_choices"

text \<open>
  \<open>product_detail(product_id)\<close>. The order is added and flushed (which gives it its
  key), then the item is added and both are committed. \<open>fmul x q\<close> is the float that
  \<open>x * q\<close> evaluates to for the float \<open>x\<close> and the integer \<open>q\<close>.
\<close>

definition product_detail ::
  "('f \<Rightarrow> int \<Rightarrow> 'f) \<Rightarrow> int \<Rightarrow> order_form \<Rightarrow> request \<Rightarrow> 'f db \<Rightarrow> 'f outcome" where
  "product_detail fmul product_key f rq s =
     (case get_product s product_key of
        None \<Rightarrow> (NotFound, [], s)
      | Some p \<Rightarrow>
          if validate_on_submit rq (order_form_ok f) then
            (case current_user s of
               None \<Rightarrow> (Redirect (LoginPage (Some (url rq))),
                        [(''info'', ''Please log in to place an order.'')], s)
             | Some cu \<Rightarrow>
                 (case py_int (f_quantity f) of
                    None \<Rightarrow> (ServerError, [], s)
                  | Some q \<Rightarrow>
                      let ord = \<lparr>oid = next_id (map oid (tbl_order s)),
                                 user_id = uid cu,
                                 order_date = now rq,
                                 total_price = fmul (price p) q,
                                 customer_name = f_customer_name f,
                                 customer_address = f_customer_address f,
                                 customer_contact = f_customer_contact f,
                                 status = ''Pending''\<rparr>;
                          itm = \<lparr>iid = next_id (map iid (tbl_order_item s)),
                                 order_id = oid ord,
                                 product_id = pid p,
                                 quantity = q,
                                 price_at_order = price p\<rparr>
                      in (Redirect UserProfile,
                          [(''success'', ''Your order for '' @ str_int q @ '' x '' @ pname p @
                                         '' has been placed successfully!'')],
                          s\<lparr>tbl_order := tbl_order s @ [ord],
                            tbl_order_item := tbl_order_item s @ [itm]\<rparr>)))
          else (Render (ProductDetailView p), [], s))"

section \<open>The catalogue\<close>

text \<open>
  SQL \<open>LIKE\<close>, pattern first: \<open>%\<close> stands for any run of characters, \<open>_\<close> for
  any one character, every other character for itself; there is no escape character.
  \<open>column.ilike(pattern)\<close> is \<open>lower(column) LIKE lower(pattern)\<close>.
\<close>

fun like_match :: "string \<Rightarrow> string \<Rightarrow> bool" where
  "like_match [] [] = True"
| "like_match [] (x # xs) = False"
| "like_match (c # cs) [] = (c = CHR ''%'' \<and> like_match cs [])"
| "like_match (c # cs) (x # xs) =
     (if c = CHR ''%'' then like_match cs (x # xs) \<or> like_match (c # cs) xs
      else if c = CHR ''_'' then like_match cs xs
      else c = x \<and> like_match cs xs)"

definition ilike :: "string \<Rightarrow> string \<Rightarrow> bool" where
  "ilike col pat = like_match (map ascii_lower_char pat) (map ascii_lower_char col)"

text \<open>
  The query parameters of \<open>/products\<close> as \<open>request.args.get\<close> returns them: None for
  a parameter that is absent (or, for the two prices, that \<open>float\<close> does not
  convert).
\<close>

record 'f product_filters =
  a_category :: "string option"
  a_material :: "string option"
  a_min_price :: "'f option"
  a_max_price :: "'f option"
  a_search :: "string option"

text \<open>Truth of a Python string-or-None: None and the empty string are false.\<close>

definition truthy :: "string option \<Rightarrow> bool" where
  "truthy x = (case x of None \<Rightarrow> False | Some t \<Rightarrow> t \<noteq> [])"

definition search_hit :: "string \<Rightarrow> 'f product \<Rightarrow> bool" where
  "search_hit q p \<longleftrightarrow>
     ilike (pname p) (''%'' @ q @ ''%'') \<or> ilike (description p) (''%'' @ q @ ''%'') \<or>
     ilike (category p) (''%'' @ q @ ''%'') \<or> ilike (material p) (''%'' @ q @ ''%'')"

text \<open>
  The query of \<open>products()\<close>; \<open>fle x y\<close> is SQL's \<open>x <= y\<close> on two floats, and
  \<open>ORDER BY name\<close> compares the strings character by character.
\<close>

definition products_query ::
  "('f \<Rightarrow> 'f \<Rightarrow> bool) \<Rightarrow> 'f product_filters \<Rightarrow> 'f product list \<Rightarrow> 'f product list" where
  "products_query fle a rows =
     (let q1 = (case a_category a of
                  Some c \<Rightarrow> if c \<noteq> [] then filter (\<lambda>p. category p = c) rows else rows
                | None \<Rightarrow> rows);
          q2 = (case a_material a of
                  Some m \<Rightarrow> if m \<noteq> [] then filter (\<lambda>p. material p = m) q1 else q1
                | None \<Rightarrow> q1);
          q3 = (case a_min_price a of Some lo \<Rightarrow> filter (\<lambda>p. fle lo (price p)) q2 | None \<Rightarrow> q2);
          q4 = (case a_max_price a of Some hi \<Rightarrow> filter (\<lambda>p. fle (price p) hi) q3 | None \<Rightarrow> q3);
          q5 = (case a_search a of
                  Some q \<Rightarrow> if q \<noteq> [] then filter (search_hit q) q4 else q4
                | None \<Rightarrow> q4)
      in sort_key pname q5)"

definition products ::
  "('f \<Rightarrow> 'f \<Rightarrow> bool) \<Rightarrow> 'f product_filters \<Rightarrow> request \<Rightarrow> 'f db \<Rightarrow> 'f outcome" where
  "products fle a rq s =
     (let all_products = products_query fle a (tbl_product s);
          categories = sort (remdups (map category (tbl_product s)));
          materials = sort (remdups (map material (tbl_product s)))
      in (Render (ProductsView all_products categories materials), [], s))"

section \<open>Registration and login\<close>

text \<open>
  Four functions of the libraries are parameters of the handlers that call them:
  \<open>email_ok\<close> is the \<open>Email()\<close> validator, \<open>gen\<close> is \<open>generate_password_hash\<close>,
  \<open>chk\<close> is \<open>check_password_hash\<close> (stored hash first), and \<open>secure\<close> is
  \<open>secure_filename\<close>.
\<close>

record registration_form =
  f_username :: string
  f_email :: string
  f_password :: string
  f_confirm_password :: string

definition validate_username :: "'f db \<Rightarrow> string \<Rightarrow> bool" where
  "validate_username s t \<longleftrightarrow> find (\<lambda>u. username u = t) (tbl_user s) = None"

definition validate_email :: "'f db \<Rightarrow> string \<Rightarrow> bool" where
  "validate_email s t \<longleftrightarrow> find (\<lambda>u. email u = t) (tbl_user s) = None"

definition registration_form_ok :: "(string \<Rightarrow> bool) \<Rightarrow> 'f db \<Rightarrow> registration_form \<Rightarrow> bool" where
  "registration_form_ok email_ok s f \<longleftrightarrow>
     data_required (f_username f) \<and> length_ok (Some 2) (Some 20) (f_username f) \<and>
     validate_username s (f_username f) \<and>
     data_required (f_email f) \<and> email_ok (f_email f) \<and> validate_email s (f_email f) \<and>
     data_required (f_password f) \<and> length_ok (Some 6) None (f_password f) \<and>
     data_required (f_confirm_password f) \<and> f_confirm_password f = f_password f"

definition signup ::
  "(string \<Rightarrow> bool) \<Rightarrow> (string \<Rightarrow> string) \<Rightarrow> registration_form \<Rightarrow> request \<Rightarrow> 'f db \<Rightarrow> 'f outcome" where
  "signup email_ok gen f rq s =
     (if current_user s \<noteq> None then (Redirect Home, [], s)
      else if validate_on_submit rq (registration_form_ok email_ok s f) then
        let u = \<lparr>uid = next_id (map uid (tbl_user s)),
                 username = f_username f,
                 email = f_email f,
                 password_hash = Some (gen (f_password f)),
                 is_admin = False\<rparr>
        in (Redirect (LoginPage None),
            [(''success'', ''Your account has been created! You can now log in.'')],
            s\<lparr>tbl_user := tbl_user s @ [u]\<rparr>)
      else (Render SignupView, [], s))"

record login_form =
  l_email :: string
  l_password :: string

definition login_form_ok :: "(string \<Rightarrow> bool) \<Rightarrow> login_form \<Rightarrow> bool" where
  "login_form_ok email_ok f \<longleftrightarrow>
     data_required (l_email f) \<and> email_ok (l_email f) \<and> data_required (l_password f)"

text \<open>
  \<open>user.check_password(password)\<close>: \<open>check_password_hash\<close> of a hash that is NULL
  raises (None here).
\<close>

definition check_password :: "(string \<Rightarrow> string \<Rightarrow> bool) \<Rightarrow> user \<Rightarrow> string \<Rightarrow> bool option" where
  "check_password chk u pw = (case password_hash u of None \<Rightarrow> None | Some h \<Rightarrow> Some (chk h pw))"

definition login ::
  "(string \<Rightarrow> bool) \<Rightarrow> (string \<Rightarrow> string \<Rightarrow> bool) \<Rightarrow> login_form \<Rightarrow> request \<Rightarrow> 'f db \<Rightarrow> 'f outcome" where
  "login email_ok chk f rq s =
     (if current_user s \<noteq> None then (Redirect Home, [], s)
      else if validate_on_submit rq (login_form_ok email_ok f) then
        (let failed = (Render LoginView,
                       [(''danger'', ''Login Unsuccessful. Please check email and password'')], s)
         in case find (\<lambda>u. email u = l_email f) (tbl_user s) of
              None \<Rightarrow> failed
            | Some u \<Rightarrow>
                (case check_password chk u (l_password f) of
                   None \<Rightarrow> (ServerError, [], s)
                 | Some False \<Rightarrow> failed
                 | Some True \<Rightarrow>
                     (Redirect (if truthy (next_arg rq)
                                then (case next_arg rq of Some n \<Rightarrow> RawUrl n | None \<Rightarrow> Home)
                                else Home),
                      [(''success'', ''Login successful!'')],
                      s\<lparr>session_user := Some (uid u)\<rparr>)))
      else (Render LoginView, [], s))"

section \<open>Product administration\<close>

definition ALLOWED_EXTENSIONS :: "string list" where
  "ALLOWED_EXTENSIONS = [''png'', ''jpg'', ''jpeg'', ''gif'']"

text \<open>\<open>filename.rsplit('.', 1)[1]\<close>, for a filename that has a dot: what follows the last dot.\<close>

definition rsplit_ext :: "string \<Rightarrow> string" where
  "rsplit_ext t = rev (takeWhile (\<lambda>c. c \<noteq> CHR ''.'') (rev t))"

definition allowed_file :: "string \<Rightarrow> bool" where
  "allowed_file t \<longleftrightarrow> CHR ''.'' \<in> set t \<and> lower (rsplit_ext t) \<in> set ALLOWED_EXTENSIONS"

text \<open>
  The data of a \<open>ProductForm\<close> as submitted. What the price field makes of its
  text is a parameter of the handlers: \<open>price_field t\<close> is None when \<open>DecimalField\<close>
  with \<open>DataRequired\<close> and \<open>NumberRange(min=0.01)\<close> does not validate \<open>t\<close>, and
  otherwise the float that the Float column stores for the field's data.
\<close>

record product_form =
  f_name :: string
  f_category :: string
  f_material :: string
  f_price :: string
  f_description :: string

definition category_choices :: "string list" where
  "category_choices = [''Ring'', ''Necklace'', ''Earring'', ''Bracelet'', ''Pendant'']"

definition product_form_ok :: "(string \<Rightarrow> 'f option) \<Rightarrow> product_form \<Rightarrow> bool" where
  "product_form_ok price_field f \<longleftrightarrow>
     data_required (f_name f) \<and> length_ok None (Some 100) (f_name f) \<and>
     data_required (f_category f) \<and> f_category f \<in> set category_choices \<and>
     data_required (f_material f) \<and> length_ok None (Some 50) (f_material f) \<and>
     price_field (f_price f) \<noteq> None \<and>
     data_required (f_description f)"

text \<open>
  \<open>add_product()\<close>, the body under the role gate. \<open>img\<close> is the filename of
  \<open>request.files.get('image')\<close>, None when the request has no such part; a file
  object is false when its filename is empty.
\<close>

definition add_product_body ::
  "(string \<Rightarrow> 'f option) \<Rightarrow> (string \<Rightarrow> string) \<Rightarrow> string option \<Rightarrow> product_form \<Rightarrow> request \<Rightarrow> 'f db \<Rightarrow> 'f outcome" where
  "add_product_body price_field secure img f rq s =
     (if validate_on_submit rq (product_form_ok price_field f) then
        (if truthy img \<and> (case img of Some t \<Rightarrow> allowed_file t | None \<Rightarrow> False) then
           (case (img, price_field (f_price f)) of
              (Some t, Some v) \<Rightarrow>
                let filename = secure t;
                    p = \<lparr>pid = next_id (map pid (tbl_product s)),
                         pname = f_name f,
                         category = f_category f,
                         material = f_material f,
                         price = v,
                         description = f_description f,
                         image_filename = Some filename,
                         date_added = now rq\<rparr>
                in (Redirect AdminProducts,
                    [(''success'', ''Product added successfully!'')],
                    s\<lparr>tbl_product := tbl_product s @ [p],
                      upload_folder := insert filename (upload_folder s)\<rparr>)
            | _ \<Rightarrow> (ServerError, [], s))
         else (Render AddProductView,
               [(''warning'', ''Invalid image file or no file uploaded. Please upload a PNG, JPG, JPEG, or GIF.'')],
               s))
      else (Render AddProductView, [], s))"

definition add_product ::
  "(string \<Rightarrow> 'f option) \<Rightarrow> (string \<Rightarrow> string) \<Rightarrow> string option \<Rightarrow> product_form \<Rightarrow> request \<Rightarrow> 'f db \<Rightarrow> 'f outcome" where
  "add_product price_field secure img f = admin_required (add_product_body price_field secure img f)"

text \<open>
  \<open>edit_product(product_id)\<close>, the body under the role gate. The row is rewritten
  from the form; a new image replaces the old file. An image that is not allowed
  returns before the commit, so nothing is stored.
\<close>

definition put_product :: "'f product \<Rightarrow> 'f product list \<Rightarrow> 'f product list" where
  "put_product p rows = map (\<lambda>r. if pid r = pid p then p else r) rows"

definition edit_product_body ::
  "(string \<Rightarrow> 'f option) \<Rightarrow> (string \<Rightarrow> string) \<Rightarrow> int \<Rightarrow> string option \<Rightarrow> product_form \<Rightarrow> request \<Rightarrow> 'f db \<Rightarrow> 'f outcome" where
  "edit_product_body price_field secure product_key img f rq s =
     (case get_product s product_key of
        None \<Rightarrow> (NotFound, [], s)
      | Some p0 \<Rightarrow>
          if validate_on_submit rq (product_form_ok price_field f) then
            (case price_field (f_price f) of
               None \<Rightarrow> (ServerError, [], s)
             | Some v \<Rightarrow>
                 let p1 = p0\<lparr>pname := f_name f, category := f_category f, material := f_material f,
                            price := v, description := f_description f\<rparr>;
                     done = (\<lambda>p files.
                        (Redirect AdminProducts,
                         [(''success'', ''Product updated successfully!'')],
                         s\<lparr>tbl_product := put_product p (tbl_product s), upload_folder := files\<rparr>))
                 in if truthy img then
                      (case img of
                         None \<Rightarrow> done p1 (upload_folder s)
                       | Some t \<Rightarrow>
                           if allowed_file t then
                             let files1 = (if truthy (image_filename p1)
                                           then (case image_filename p1 of
                                                   Some old \<Rightarrow> upload_folder s - {old}
                                                 | None \<Rightarrow> upload_folder s)
                                           else upload_folder s);
                                 filename = secure t
                             in done (p1\<lparr>image_filename := Some filename\<rparr>) (insert filename files1)
                           else (Render (EditProductView p1),
                                 [(''warning'', ''Invalid image file. Please upload a PNG, JPG, JPEG, or GIF.'')],
                                 s))
                    else done p1 (upload_folder s))
          else (Render (EditProductView p0), [], s))"

definition edit_product ::
  "(string \<Rightarrow> 'f option) \<Rightarrow> (string \<Rightarrow> string) \<Rightarrow> int \<Rightarrow> string option \<Rightarrow> product_form \<Rightarrow> request \<Rightarrow> 'f db \<Rightarrow> 'f outcome" where
  "edit_product price_field secure product_key img f =
     admin_required (edit_product_body price_field secure product_key img f)"

section \<open>Admin messages\<close>

record message_form =
  f_message_text :: string

definition message_form_ok :: "message_form \<Rightarrow> bool" where
  "message_form_ok f \<longleftrightarrow>
     data_required (f_message_text f) \<and> length_ok (Some 1) (Some 500) (f_message_text f)"

text \<open>The conversation of two users: the rows sent by one of them to the other.\<close>

definition in_conversation :: "int \<Rightarrow> int \<Rightarrow> message \<Rightarrow> bool" where
  "in_conversation a b m \<longleftrightarrow>
     (sender_id m = a \<and> receiver_id m = Some b) \<or> (sender_id m = b \<and> receiver_id m = Some a)"

text \<open>The body of the loop over the selected conversation.\<close>

definition mark_read :: "int \<Rightarrow> int \<Rightarrow> message \<Rightarrow> message" where
  "mark_read sel me m =
     (if sender_id m = sel \<and> receiver_id m = Some me \<and> \<not> is_read m then m\<lparr>is_read := True\<rparr> else m)"

definition users_with_messages :: "user \<Rightarrow> 'f db \<Rightarrow> user list" where
  "users_with_messages cu s =
     filter (\<lambda>u. \<not> is_admin u)
       (filter (\<lambda>u. list_ex (\<lambda>m. (uid u = sender_id m \<or> Some (uid u) = receiver_id m) \<and>
                                   (receiver_id m = Some (uid cu) \<or> sender_id m = uid cu))
                             (tbl_message s))
               (tbl_user s))"

text \<open>
  \<open>admin_messages()\<close>, the body under the role gate. \<open>sel\<close> is
  \<open>request.args.get('user_id', type=int)\<close>; the integer 0 is false.
\<close>

definition admin_messages_body :: "int option \<Rightarrow> message_form \<Rightarrow> request \<Rightarrow> 'f db \<Rightarrow> 'f outcome" where
  "admin_messages_body sel f rq s =
     (case current_user s of
        None \<Rightarrow> (ServerError, [], s)
      | Some cu \<Rightarrow>
          let selected_user = (case sel of
                                 None \<Rightarrow> None
                               | Some i \<Rightarrow> if i \<noteq> 0 then get_user s i else None);
              viewed = (case selected_user of
                          None \<Rightarrow> False
                        | Some su \<Rightarrow> \<not> is_admin su);
              s1 = (case selected_user of
                      None \<Rightarrow> s
                    | Some su \<Rightarrow>
                        if \<not> is_admin su
                        then s\<lparr>tbl_message :=
                                 map (\<lambda>m. if in_conversation (uid cu) (uid su) m
                                           then mark_read (uid su) (uid cu) m else m)
                                     (tbl_message s)\<rparr>
                        else s);
              messages_with_selected_user =
                (case selected_user of
                   None \<Rightarrow> []
                 | Some su \<Rightarrow>
                     if \<not> is_admin su
                     then sort_key timestamp (filter (in_conversation (uid cu) (uid su)) (tbl_message s1))
                     else [])
          in (case selected_user of
                Some su \<Rightarrow>
                  if validate_on_submit rq (message_form_ok f) then
                    let msg = \<lparr>mid = next_id (map mid (tbl_message s1)),
                               sender_id = uid cu,
                               receiver_id = Some (uid su),
                               message_text = f_message_text f,
                               timestamp = now rq,
                               is_read = False\<rparr>
                    in (Redirect (AdminMessages (uid su)),
                        [(''success'', ''Message sent to '' @ username su @ ''!'')],
                        s1\<lparr>tbl_message := tbl_message s1 @ [msg]\<rparr>)
                  else (Render (AdminMessagesView (users_with_messages cu s) selected_user
                                  messages_with_selected_user), [], s1)
              | None \<Rightarrow>
                  (Render (AdminMessagesView (users_with_messages cu s) selected_user
                             messages_with_selected_user), [], s1)))"

definition admin_messages :: "int option \<Rightarrow> message_form \<Rightarrow> request \<Rightarrow> 'f db \<Rightarrow> 'f outcome" where
  "admin_messages sel f = admin_required (admin_messages_body sel f)"

section \<open>A small shop\<close>

text \<open>
  One concrete state, used to evaluate the handlers: the administrator, one customer,
  one product, one order of three rings, and one message in each direction.
\<close>

definition alice :: user where
  "alice = \<lparr>uid = 1, username = ''admin'', email = ''admin@mdcreations.com'',
            password_hash = Some ''h:adminpassword'', is_admin = True\<rparr>"

definition bob :: user where
  "bob = \<lparr>uid = 2, username = ''bob'', email = ''bob@example.com'',
          password_hash = Some ''h:secret1'', is_admin = False\<rparr>"

definition ring :: "real product" where
  "ring = \<lparr>pid = 1, pname = ''Gold Ring'', category = ''Ring'', material = ''Gold'',
           price = 120, description = ''A plain band'', image_filename = Some ''ring.png'',
           date_added = 5\<rparr>"

definition order1 :: "real order" where
  "order1 = \<lparr>oid = 1, user_id = 2, order_date = 7, total_price = 360,
             customer_name = ''Bob'', customer_address = ''1 Main St'',
             customer_contact = ''555'', status = ''Pending''\<rparr>"

definition item1 :: "real order_item" where
  "item1 = \<lparr>iid = 1, order_id = 1, product_id = 1, quantity = 3, price_at_order = 120\<rparr>"

definition msg1 :: message where
  "msg1 = \<lparr>mid = 1, sender_id = 2, receiver_id = Some 1, message_text = ''hello'',
           timestamp = 8, is_read = False\<rparr>"

definition msg2 :: message where
  "msg2 = \<lparr>mid = 2, sender_id = 1, receiver_id = Some 2, message_text = ''hi bob'',
           timestamp = 9, is_read = False\<rparr>"

definition shop :: "int option \<Rightarrow> real db" where
  "shop who = \<lparr>tbl_user = [alice, bob], tbl_product = [ring], tbl_order = [order1],
               tbl_order_item = [item1], tbl_message = [msg1, msg2],
               upload_folder = {''ring.png''}, session_user = who\<rparr>"

definition post_rq :: request where
  "post_rq = \<lparr>http_method = POST, url = ''/product/1'', next_arg = None,
              csrf_valid = True, now = 10\<rparr>"

definition get_rq :: request where
  "get_rq = \<lparr>http_method = GET, url = ''/admin/messages'', next_arg = None,
             csrf_valid = False, now = 10\<rparr>"

definition order3 :: order_form where
  "order3 = \<lparr>f_customer_name = ''Bob'', f_customer_address = ''1 Main St'',
             f_customer_contact = ''555'', f_quantity = ''3''\<rparr>"

text \<open>
  Stand-ins for the library functions when a handler is evaluated: a hash is the
  password behind a prefix, an address is accepted when it has an at sign, and a
  file name is made safe by dropping its slashes.
\<close>

definition toy_hash :: "string \<Rightarrow> string" where
  "toy_hash pw = ''h:'' @ pw"

definition toy_check :: "string \<Rightarrow> string \<Rightarrow> bool" where
  "toy_check h pw \<longleftrightarrow> h = toy_hash pw"

definition toy_email_ok :: "string \<Rightarrow> bool" where
  "toy_email_ok e \<longleftrightarrow> CHR ''@'' \<in> set e"

definition bob_login :: login_form where
  "bob_login = \<lparr>l_email = ''bob@example.com'', l_password = ''secret1''\<rparr>"

definition login_rq :: request where
  "login_rq = \<lparr>http_method = POST, url = ''/login?next=/product/1'',
               next_arg = Some ''/product/1'', csrf_valid = True, now = 11\<rparr>"


text \<open>
  Stand-ins for the float operations when a handler is evaluated. The prices of the
  concrete shop are whole numbers of a few digits; on these the float product, the
  float comparison and the conversion of the price field are exact, so they are read
  off the reals. \<open>toy_price\<close> accepts the texts of the whole numbers from 1 on.
\<close>

definition exact_mul :: "real \<Rightarrow> int \<Rightarrow> real" where
  "exact_mul x q = x * of_int q"

definition exact_le :: "real \<Rightarrow> real \<Rightarrow> bool" where
  "exact_le x y \<longleftrightarrow> x \<le> y"

definition toy_price :: "string \<Rightarrow> real option" where
  "toy_price t = (case py_int t of
                    None \<Rightarrow> None
                  | Some n \<Rightarrow> if 1 \<le> n then Some (of_int n) else None)"

definition toy_secure :: "string \<Rightarrow> string" where
  "toy_secure t = filter (\<lambda>c. c \<noteq> CHR ''/'') t"

text \<open>The requests and forms of the scenarios below.\<close>

definition no_order :: order_form where
  "no_order = \<lparr>f_customer_name = [], f_customer_address = [],
               f_customer_contact = [], f_quantity = []\<rparr>"

definition product_get_rq :: request where
  "product_get_rq = \<lparr>http_method = GET, url = ''/product/1'', next_arg = None,
                     csrf_valid = False, now = 12\<rparr>"

definition ring_edit :: product_form where
  "ring_edit = \<lparr>f_name = ''Gold Ring'', f_category = ''Ring'', f_material = ''Gold'',
                f_price = ''150'', f_description = ''A plain band''\<rparr>"

definition edit_rq :: request where
  "edit_rq = \<lparr>http_method = POST, url = ''/admin/edit_product/1'', next_arg = None,
              csrf_valid = True, now = 13\<rparr>"

definition bob_again :: registration_form where
  "bob_again = \<lparr>f_username = ''bob'', f_email = ''robert@example.com'',
                f_password = ''secret2'', f_confirm_password = ''secret2''\<rparr>"

definition carol_form :: registration_form where
  "carol_form = \<lparr>f_username = ''carol'', f_email = ''carol@example.com'',
                 f_password = ''secret3'', f_confirm_password = ''secret3''\<rparr>"

definition carol :: user where
  "carol = \<lparr>uid = 3, username = ''carol'', email = ''carol@example.com'',
            password_hash = Some ''h:secret3'', is_admin = False\<rparr>"

definition signup_rq :: request where
  "signup_rq = \<lparr>http_method = POST, url = ''/signup'', next_arg = None,
                csrf_valid = True, now = 14\<rparr>"

definition chain_form :: product_form where
  "chain_form = \<lparr>f_name = ''Silver Chain'', f_category = ''Necklace'', f_material = ''Silver'',
                 f_price = ''80'', f_description = ''A fine chain''\<rparr>"

definition chain :: "real product" where
  "chain = \<lparr>pid = 2, pname = ''Silver Chain'', category = ''Necklace'', material = ''Silver'',
            price = 80, description = ''A fine chain'', image_filename = Some ''chain.PNG'',
            date_added = 15\<rparr>"

definition add_rq :: request where
  "add_rq = \<lparr>http_method = POST, url = ''/admin/add_product'', next_arg = None,
             csrf_valid = True, now = 15\<rparr>"

definition reply_form :: message_form where
  "reply_form = \<lparr>f_message_text = ''note to self''\<rparr>"

definition reply_rq :: request where
  "reply_rq = \<lparr>http_method = POST, url = ''/admin/messages?user_id=1'', next_arg = None,
               csrf_valid = True, now = 16\<rparr>"

definition msg3 :: message where
  "msg3 = \<lparr>mid = 3, sender_id = 1, receiver_id = Some 1, message_text = ''note to self'',
           timestamp = 16, is_read = False\<rparr>"

definition underscore_search :: "real product_filters" where
  "underscore_search = \<lparr>a_category = None, a_material = None, a_min_price = None,
                        a_max_price = None, a_search = Some ''_old''\<rparr>"

text \<open>
  The listing that the words of the specification describe: a product is listed when
  it meets every filter that is given, the search being a substring of one of the four
  lower-cased text columns.
\<close>

definition substring_of :: "string \<Rightarrow> string \<Rightarrow> bool" where
  "substring_of q t \<longleftrightarrow> list_ex (\<lambda>u. take (length q) u = q) (map (\<lambda>n. drop n t) [0 ..< Suc (length t)])"

definition spec_search_hit :: "string \<Rightarrow> 'f product \<Rightarrow> bool" where
  "spec_search_hit q p \<longleftrightarrow>
     list_ex (\<lambda>t. substring_of (map ascii_lower_char q) (map ascii_lower_char t))
       [pname p, description p, category p, material p]"

section \<open>Facts about the queries\<close>

lemma find_Some_holds: "find P xs = Some x \<Longrightarrow> P x \<and> x \<in> set xs"
  by (induction xs) (auto split: if_splits)

lemma current_user_shop_bob: "current_user (shop (Some 2)) = Some bob"
  by (simp add: current_user_def get_user_def shop_def alice_def bob_def)

lemma current_user_shop_alice: "current_user (shop (Some 1)) = Some alice"
  by (simp add: current_user_def get_user_def shop_def alice_def)

lemma current_user_shop_anonymous: "current_user (shop None) = None"
  by (simp add: current_user_def shop_def)

section \<open>Facts about the forms and keys\<close>

lemma fold_max_ge: "(a::int) \<le> fold max ks a"
  by (induction ks arbitrary: a) (auto intro: order_trans [OF max.cobounded2])

lemma fold_max_mem: "(x::int) \<in> set ks \<Longrightarrow> x \<le> fold max ks a"
proof (induction ks arbitrary: a)
  case Nil then show ?case by simp
next
  case (Cons k ks)
  show ?case
  proof (cases "x = k")
    case True
    have "k \<le> max k a" by simp
    also have "\<dots> \<le> fold max ks (max k a)" by (rule fold_max_ge)
    finally show ?thesis using True by simp
  next
    case False
    with Cons.prems have "x \<in> set ks" by simp
    then show ?thesis using Cons.IH by simp
  qed
qed

lemma next_id_fresh: "next_id ks \<notin> set ks"
proof
  assume "next_id ks \<in> set ks"
  then have "next_id ks \<le> fold max ks 0" by (rule fold_max_mem)
  then show False by (simp add: next_id_def)
qed

lemma quantity_choices_eq: "quantity_choices = [''1'', ''2'', ''3'', ''4'', ''5'']"
  by (simp add: quantity_choices_def upt_rec str_nat.simps digit_char_def)

lemma order3_ok: "order_form_ok order3"
  by (simp add: order_form_ok_def order3_def data_required_def strip_def is_space_def length_ok_def quantity_choices_eq)

lemma py_int_3: "py_int ''3'' = Some 3"
  by (simp add: py_int_def strip_def is_space_def digit_val_def)

lemma quantity_choice_int:
  "t \<in> set quantity_choices \<Longrightarrow> \<exists>q. py_int t = Some q \<and> 1 \<le> q \<and> q \<le> 5"
  by (auto simp: quantity_choices_eq py_int_def strip_def is_space_def digit_val_def)

lemma get_product_shop: "get_product (shop who) 1 = Some ring"
  by (simp add: get_product_def shop_def ring_def)

lemma order3_submitted: "validate_on_submit post_rq (order_form_ok order3)"
  by (simp add: validate_on_submit_def post_rq_def order3_ok)

lemma bob_login_submitted: "validate_on_submit login_rq (login_form_ok toy_email_ok bob_login)"
  by (simp add: validate_on_submit_def login_rq_def login_form_ok_def toy_email_ok_def
      bob_login_def data_required_def strip_def is_space_def)

lemma bob_login_found:
  "find (\<lambda>u. email u = l_email bob_login) (tbl_user (shop who)) = Some bob"
  by (simp add: shop_def alice_def bob_def bob_login_def)

lemma bob_login_checks: "check_password toy_check bob (l_password bob_login) = Some True"
  by (simp add: check_password_def toy_check_def toy_hash_def bob_def bob_login_def)

section \<open>The role gate keeps non-admin users out\<close>

text \<open>
  Claim C3. For a logged-in user who is not an administrator, every route wrapped in
  \<open>admin_required\<close> answers with a redirect to the home page and the notice of
  category danger, whatever the wrapped handler \<open>f\<close> is: the handler's body is not
  run, the state is the one before the request, and nothing the handler would have
  rendered is returned.
\<close>

theorem admin_required_rejects_non_admin:
  assumes "current_user s = Some u" and "\<not> is_admin u"
  shows "admin_required f rq s =
     (Redirect Home, [(''danger'', ''You do not have permission to access this page.'')], s)"
  using assms by (simp add: admin_required_def login_required_def)

theorem admin_required_rejects_non_admin_witness:
  "current_user (shop (Some 2)) = Some bob \<and> \<not> is_admin bob \<and>
   admin_required (update_order_status_body 1 (Some ''Shipped'')) post_rq (shop (Some 2)) =
     (Redirect Home, [(''danger'', ''You do not have permission to access this page.'')],
      shop (Some 2))"
proof -
  have b: "\<not> is_admin bob" by (simp add: bob_def)
  show ?thesis
    using admin_required_rejects_non_admin [OF current_user_shop_bob b] current_user_shop_bob b
    by simp
qed

section \<open>Order status\<close>

lemma find_set_status:
  "find (\<lambda>r. oid r = k) rows = Some ord \<Longrightarrow>
   find (\<lambda>r. oid r = k) (set_status k st rows) = Some (ord\<lparr>status := st\<rparr>)"
  unfolding set_status_def
  by (induction rows) (auto split: if_splits)

lemma get_order_oid: "get_order s k = Some ord \<Longrightarrow> oid ord = k"
  unfolding get_order_def by (drule find_Some_holds) simp

text \<open>
  Claim C4. An administrator posts a status for an existing order. If the status is one
  of the five values, the order with that key gets it, whatever its status was before
  (no transition is refused), every other row and every other column is kept, and the
  order read back carries the new status. If the status is any other string, the
  answer is the notice of category danger and the state before the request.
\<close>

theorem update_order_status_sets_or_rejects:
  assumes "current_user s = Some a" and "is_admin a" and "get_order s k = Some ord"
  shows "(st \<in> set valid_statuses \<longrightarrow>
            (\<exists>ns. update_order_status k (Some st) rq s =
               (Redirect AdminOrders, ns,
                s\<lparr>tbl_order := map (\<lambda>r. if oid r = k then r\<lparr>status := st\<rparr> else r) (tbl_order s)\<rparr>)) \<and>
            get_order (snd (snd (update_order_status k (Some st) rq s))) k = Some (ord\<lparr>status := st\<rparr>)) \<and>
         (st \<notin> set valid_statuses \<longrightarrow>
            update_order_status k (Some st) rq s =
              (Redirect AdminOrders, [(''danger'', ''Invalid status provided.'')], s))"
proof -
  have k: "oid ord = k" using assms(3) by (rule get_order_oid)
  have gate: "update_order_status k x rq s = update_order_status_body k x rq s" for x
    using assms(1,2) by (simp add: update_order_status_def admin_required_def login_required_def)
  have f: "find (\<lambda>r. oid r = k) (set_status k st (tbl_order s)) = Some (ord\<lparr>status := st\<rparr>)"
    using assms(3) unfolding get_order_def by (rule find_set_status)
  show ?thesis
    using assms(3) k f
    by (simp add: gate update_order_status_body_def set_status_def get_order_def)
qed

theorem update_order_status_sets_or_rejects_witness:
  "current_user (shop (Some 1)) = Some alice \<and> is_admin alice \<and>
   get_order (shop (Some 1)) 1 = Some order1 \<and>
   ''Shipped'' \<in> set valid_statuses \<and>
   get_order (snd (snd (update_order_status 1 (Some ''Shipped'') post_rq (shop (Some 1))))) 1
     = Some (order1\<lparr>status := ''Shipped''\<rparr>) \<and>
   ''Lost'' \<notin> set valid_statuses \<and>
   update_order_status 1 (Some ''Lost'') post_rq (shop (Some 1)) =
     (Redirect AdminOrders, [(''danger'', ''Invalid status provided.'')], shop (Some 1))"
proof -
  have a: "is_admin alice" by (simp add: alice_def)
  have g: "get_order (shop (Some 1)) 1 = Some order1"
    by (simp add: get_order_def shop_def order1_def)
  have v: "''Shipped'' \<in> set valid_statuses" by (simp add: valid_statuses_def)
  have l: "''Lost'' \<notin> set valid_statuses" by (simp add: valid_statuses_def)
  from update_order_status_sets_or_rejects [OF current_user_shop_alice a g, of "''Shipped''" post_rq] v
  have 1: "get_order (snd (snd (update_order_status 1 (Some ''Shipped'') post_rq (shop (Some 1))))) 1
     = Some (order1\<lparr>status := ''Shipped''\<rparr>)" by blast
  from update_order_status_sets_or_rejects [OF current_user_shop_alice a g, of "''Lost''" post_rq] l
  have 2: "update_order_status 1 (Some ''Lost'') post_rq (shop (Some 1)) =
     (Redirect AdminOrders, [(''danger'', ''Invalid status provided.'')], shop (Some 1))" by blast
  show ?thesis using current_user_shop_alice a g v l 1 2 by blast
qed

section \<open>Login\<close>





section \<open>Anonymous orders are sent to the login\<close>

lemma product_detail_anonymous:
  "current_user s = None \<Longrightarrow> snd (snd (product_detail fmul k f rq s)) = s"
  by (simp add: product_detail_def split: option.splits)

lemma product_detail_get:
  "http_method rq = GET \<Longrightarrow> get_product s k = Some p \<Longrightarrow>
   product_detail fmul k f rq s = (Render (ProductDetailView p), [], s)"
  by (simp add: product_detail_def validate_on_submit_def)

lemma shop_login_bob: "(shop None)\<lparr>session_user := Some (uid bob)\<rparr> = shop (Some 2)"
  by (simp add: shop_def bob_def)

text \<open>
  Claim C8, as the code has it. For the anonymous user \<open>product_detail\<close> leaves the
  whole state as it was, so no order and no order item is created, whatever is
  submitted. A valid form for an existing product is answered with the notice of
  category info and a redirect to the login page that carries the request's URL as
  \<open>next\<close>. A login that then succeeds with that \<open>next\<close> redirects to that URL and
  changes nothing but the session. The request that follows the redirect is a GET of
  the product page: whatever form data it is given, it renders the page and leaves the
  state as the login left it. The submission is not carried over the login, and no
  order exists until the form is posted again.
\<close>

theorem anonymous_order_sent_to_login:
  assumes "current_user s = None"
  shows "snd (snd (product_detail fmul k f rq s)) = s \<and>
         (get_product s k = Some p \<and> validate_on_submit rq (order_form_ok f) \<longrightarrow>
            product_detail fmul k f rq s =
              (Redirect (LoginPage (Some (url rq))),
               [(''info'', ''Please log in to place an order.'')], s) \<and>
            (validate_on_submit rq2 (login_form_ok email_ok lf) \<and>
             next_arg rq2 = Some (url rq) \<and> url rq \<noteq> [] \<and>
             find (\<lambda>u. email u = l_email lf) (tbl_user s) = Some u \<and>
             check_password chk u (l_password lf) = Some True \<longrightarrow>
               login email_ok chk lf rq2 s =
                 (Redirect (RawUrl (url rq)), [(''success'', ''Login successful!'')],
                  s\<lparr>session_user := Some (uid u)\<rparr>) \<and>
               (http_method rq3 = GET \<longrightarrow>
                  product_detail fmul k f3 rq3 (s\<lparr>session_user := Some (uid u)\<rparr>) =
                    (Render (ProductDetailView p), [], s\<lparr>session_user := Some (uid u)\<rparr>))))"
proof (intro conjI impI)
  show "snd (snd (product_detail fmul k f rq s)) = s"
    using assms by (rule product_detail_anonymous)
next
  assume a: "get_product s k = Some p \<and> validate_on_submit rq (order_form_ok f)"
  then show "product_detail fmul k f rq s =
      (Redirect (LoginPage (Some (url rq))), [(''info'', ''Please log in to place an order.'')], s)"
    using assms by (simp add: product_detail_def)
next
  assume b: "validate_on_submit rq2 (login_form_ok email_ok lf) \<and>
             next_arg rq2 = Some (url rq) \<and> url rq \<noteq> [] \<and>
             find (\<lambda>u. email u = l_email lf) (tbl_user s) = Some u \<and>
             check_password chk u (l_password lf) = Some True"
  then show "login email_ok chk lf rq2 s =
      (Redirect (RawUrl (url rq)), [(''success'', ''Login successful!'')],
       s\<lparr>session_user := Some (uid u)\<rparr>)"
    using assms by (simp add: login_def truthy_def)
next
  assume a: "get_product s k = Some p \<and> validate_on_submit rq (order_form_ok f)"
    and g: "http_method rq3 = GET"
  have "get_product (s\<lparr>session_user := Some (uid u)\<rparr>) k = Some p"
    using a by (simp add: get_product_def)
  with g show "product_detail fmul k f3 rq3 (s\<lparr>session_user := Some (uid u)\<rparr>) =
      (Render (ProductDetailView p), [], s\<lparr>session_user := Some (uid u)\<rparr>)"
    by (rule product_detail_get)
qed

theorem anonymous_order_sent_to_login_witness:
  "current_user (shop None) = None \<and>
   get_product (shop None) 1 = Some ring \<and>
   validate_on_submit post_rq (order_form_ok order3) \<and>
   validate_on_submit login_rq (login_form_ok toy_email_ok bob_login) \<and>
   next_arg login_rq = Some (url post_rq) \<and> url post_rq \<noteq> [] \<and>
   find (\<lambda>u. email u = l_email bob_login) (tbl_user (shop None)) = Some bob \<and>
   check_password toy_check bob (l_password bob_login) = Some True \<and>
   http_method product_get_rq = GET \<and>
   snd (snd (product_detail exact_mul 1 order3 post_rq (shop None))) = shop None \<and>
   product_detail exact_mul 1 order3 post_rq (shop None) =
     (Redirect (LoginPage (Some ''/product/1'')),
      [(''info'', ''Please log in to place an order.'')], shop None) \<and>
   login toy_email_ok toy_check bob_login login_rq (shop None) =
     (Redirect (RawUrl ''/product/1''), [(''success'', ''Login successful!'')], shop (Some 2)) \<and>
   product_detail exact_mul 1 no_order product_get_rq (shop (Some 2)) =
     (Render (ProductDetailView ring), [], shop (Some 2))"
proof -
  have u: "url post_rq = ''/product/1''" "next_arg login_rq = Some ''/product/1''"
    "http_method product_get_rq = GET"
    by (simp_all add: post_rq_def login_rq_def product_get_rq_def)
  note th = anonymous_order_sent_to_login [OF current_user_shop_anonymous,
      of exact_mul 1 order3 post_rq ring login_rq toy_email_ok bob_login bob toy_check
         product_get_rq no_order]
  from th get_product_shop [of None] order3_submitted bob_login_submitted
    bob_login_found [of None] bob_login_checks
  show ?thesis
    using current_user_shop_anonymous by (simp add: u shop_login_bob)
qed

text \<open>
  Claim C8 as worded ends with ``after which the operation resumes''. In the shop an
  anonymous visitor posts the order of three rings and is sent to the login; bob logs
  in with the \<open>next\<close> of that redirect and is sent back to the product page; the
  browser's GET of that page renders it. After the three requests the tables still
  hold the one order and the one item they held before: the order of three rings was
  not placed.
\<close>

theorem anonymous_order_not_resumed:
  "product_detail exact_mul 1 order3 post_rq (shop None) =
     (Redirect (LoginPage (Some ''/product/1'')),
      [(''info'', ''Please log in to place an order.'')], shop None) \<and>
   login toy_email_ok toy_check bob_login login_rq (shop None) =
     (Redirect (RawUrl ''/product/1''), [(''success'', ''Login successful!'')], shop (Some 2)) \<and>
   product_detail exact_mul 1 no_order product_get_rq (shop (Some 2)) =
     (Render (ProductDetailView ring), [], shop (Some 2)) \<and>
   tbl_order (shop (Some 2)) = [order1] \<and> tbl_order_item (shop (Some 2)) = [item1]"
proof -
  have 1: "product_detail exact_mul 1 order3 post_rq (shop None) =
     (Redirect (LoginPage (Some ''/product/1'')),
      [(''info'', ''Please log in to place an order.'')], shop None)"
    using get_product_shop [of None] order3_submitted current_user_shop_anonymous
    by (simp add: product_detail_def) (simp add: post_rq_def)
  have 2: "login toy_email_ok toy_check bob_login login_rq (shop None) =
     (Redirect (RawUrl ''/product/1''), [(''success'', ''Login successful!'')], shop (Some 2))"
    using current_user_shop_anonymous bob_login_submitted bob_login_found [of None]
      bob_login_checks
    by (simp add: login_def shop_login_bob) (simp add: login_rq_def truthy_def)
  have 3: "product_detail exact_mul 1 no_order product_get_rq (shop (Some 2)) =
     (Render (ProductDetailView ring), [], shop (Some 2))"
    by (rule product_detail_get) (simp_all add: product_get_rq_def get_product_shop)
  have 4: "tbl_order (shop (Some 2)) = [order1]" "tbl_order_item (shop (Some 2)) = [item1]"
    by (simp_all add: shop_def)
  from 1 2 3 4 show ?thesis by blast
qed

section \<open>Orders carry a price snapshot\<close>

lemma edit_product_keeps_orders:
  "tbl_order (snd (snd (edit_product price_field secure k img f rq t))) = tbl_order t \<and>
   tbl_order_item (snd (snd (edit_product price_field secure k img f rq t))) = tbl_order_item t"
  by (simp add: edit_product_def admin_required_def login_required_def edit_product_body_def Let_def
      split: option.splits)

lemma find_put_product:
  "find (\<lambda>r. pid r = k) rows = Some p0 \<Longrightarrow> pid p1 = k \<Longrightarrow>
   find (\<lambda>r. pid r = k) (put_product p1 rows) = Some p1"
  unfolding put_product_def
  by (induction rows) (auto split: if_splits)

lemma edit_product_sets_price:
  assumes "current_user t = Some a" and "is_admin a" and "get_product t k = Some p0"
    and "validate_on_submit rq (product_form_ok price_field f)"
    and "price_field (f_price f) = Some v" and "\<not> truthy img"
  shows "get_product (snd (snd (edit_product price_field secure k img f rq t))) k =
           Some (p0\<lparr>pname := f_name f, category := f_category f, material := f_material f,
                     price := v, description := f_description f\<rparr>)"
proof -
  define p1 where "p1 = p0\<lparr>pname := f_name f, category := f_category f, material := f_material f,
                     price := v, description := f_description f\<rparr>"
  have gate: "edit_product price_field secure k img f rq t =
               edit_product_body price_field secure k img f rq t"
    using assms(1,2) by (simp add: edit_product_def admin_required_def login_required_def)
  have body: "edit_product_body price_field secure k img f rq t =
      (Redirect AdminProducts, [(''success'', ''Product updated successfully!'')],
       t\<lparr>tbl_product := put_product p1 (tbl_product t), upload_folder := upload_folder t\<rparr>)"
    using assms(3-6) by (simp add: edit_product_body_def Let_def p1_def)
  have f0: "find (\<lambda>r. pid r = k) (tbl_product t) = Some p0"
    using assms(3) by (simp add: get_product_def)
  then have "pid p0 = k" by (auto dest: find_Some_holds)
  then have "pid p1 = k" by (simp add: p1_def)
  with f0 have "find (\<lambda>r. pid r = k) (put_product p1 (tbl_product t)) = Some p1"
    by (rule find_put_product)
  then show ?thesis
    by (simp add: gate body get_product_def p1_def)
qed

text \<open>
  Claim C1. A logged-in user submits a valid order form for an existing product of
  price \<open>p\<close>. The quantity \<open>q\<close> read from the form is between 1 and 5; one order
  with a fresh key is appended whose \<open>total_price\<close> is the product \<open>p * q\<close> as the
  interpreter computes it (\<open>fmul\<close>), and exactly one order item, which refers to that
  order and carries \<open>price_at_order = p\<close>; when every earlier item refers to an order
  of the table, it is the only item of the new order. \<open>edit_product\<close> is the one
  handler that writes a price. Whoever runs it afterwards, on whatever product and
  with whatever form, the two tables are what the placement left; and when it is an
  administrator who gives the ordered product the new price \<open>v\<close>, the product then
  has the price \<open>v\<close> while the order and its item still carry the old one.
\<close>

theorem place_order_snapshot:
  assumes "current_user s = Some cu" and "get_product s k = Some p"
    and "validate_on_submit rq (order_form_ok f)"
  shows "\<exists>q ns ord itm.
           py_int (f_quantity f) = Some q \<and> 1 \<le> q \<and> q \<le> 5 \<and>
           product_detail fmul k f rq s =
             (Redirect UserProfile, ns,
              s\<lparr>tbl_order := tbl_order s @ [ord], tbl_order_item := tbl_order_item s @ [itm]\<rparr>) \<and>
           total_price ord = fmul (price p) q \<and> user_id ord = uid cu \<and>
           status ord = ''Pending'' \<and> oid ord \<notin> oid ` set (tbl_order s) \<and>
           order_id itm = oid ord \<and> product_id itm = pid p \<and> quantity itm = q \<and>
           price_at_order itm = price p \<and>
           (order_id ` set (tbl_order_item s) \<subseteq> oid ` set (tbl_order s) \<longrightarrow>
              filter (\<lambda>i. order_id i = oid ord) (tbl_order_item s @ [itm]) = [itm]) \<and>
           tbl_order (snd (snd (edit_product price_field secure k' img f' rq'
              (s\<lparr>tbl_order := tbl_order s @ [ord], tbl_order_item := tbl_order_item s @ [itm],
                 session_user := who\<rparr>))))
             = tbl_order s @ [ord] \<and>
           tbl_order_item (snd (snd (edit_product price_field secure k' img f' rq'
              (s\<lparr>tbl_order := tbl_order s @ [ord], tbl_order_item := tbl_order_item s @ [itm],
                 session_user := who\<rparr>))))
             = tbl_order_item s @ [itm] \<and>
           (current_user (s\<lparr>session_user := who\<rparr>) = Some a \<and> is_admin a \<and>
            validate_on_submit rq' (product_form_ok price_field f') \<and>
            price_field (f_price f') = Some v \<and> \<not> truthy img \<longrightarrow>
              map_option price (get_product (snd (snd (edit_product price_field secure k img f' rq'
                (s\<lparr>tbl_order := tbl_order s @ [ord], tbl_order_item := tbl_order_item s @ [itm],
                   session_user := who\<rparr>)))) k) = Some v \<and>
              total_price ord = fmul (price p) q \<and> price_at_order itm = price p)"
proof -
  from assms(3) have ok: "order_form_ok f" by (simp add: validate_on_submit_def)
  then have "f_quantity f \<in> set quantity_choices" by (simp add: order_form_ok_def)
  then obtain q where q: "py_int (f_quantity f) = Some q" "1 \<le> q" "q \<le> 5"
    using quantity_choice_int by blast
  define ord where "ord = \<lparr>oid = next_id (map oid (tbl_order s)), user_id = uid cu,
     order_date = now rq, total_price = fmul (price p) q,
     customer_name = f_customer_name f, customer_address = f_customer_address f,
     customer_contact = f_customer_contact f, status = ''Pending''\<rparr>"
  define itm where "itm = \<lparr>iid = next_id (map iid (tbl_order_item s)), order_id = oid ord,
     product_id = pid p, quantity = q, price_at_order = price p\<rparr>"
  define s' where "s' = s\<lparr>tbl_order := tbl_order s @ [ord], tbl_order_item := tbl_order_item s @ [itm]\<rparr>"
  define s'' where "s'' = s\<lparr>tbl_order := tbl_order s @ [ord], tbl_order_item := tbl_order_item s @ [itm],
     session_user := who\<rparr>"
  have run: "product_detail fmul k f rq s =
     (Redirect UserProfile,
      [(''success'', ''Your order for '' @ str_int q @ '' x '' @ pname p @
                     '' has been placed successfully!'')], s')"
    using assms q(1) by (simp add: product_detail_def Let_def ord_def itm_def s'_def)
  have fresh: "oid ord \<notin> oid ` set (tbl_order s)"
    using next_id_fresh [of "map oid (tbl_order s)"] by (simp add: ord_def)
  have one: "filter (\<lambda>i. order_id i = oid ord) (tbl_order_item s @ [itm]) = [itm]"
    if "order_id ` set (tbl_order_item s) \<subseteq> oid ` set (tbl_order s)"
  proof -
    have "\<forall>i \<in> set (tbl_order_item s). order_id i \<noteq> oid ord"
      using that fresh by (metis imageI subsetD)
    then have "filter (\<lambda>i. order_id i = oid ord) (tbl_order_item s) = []"
      by (simp add: filter_empty_conv)
    then show ?thesis by (simp add: itm_def)
  qed
  have later: "tbl_order (snd (snd (edit_product price_field secure k' img f' rq' s''))) = tbl_order s @ [ord]"
       "tbl_order_item (snd (snd (edit_product price_field secure k' img f' rq' s''))) = tbl_order_item s @ [itm]"
    using edit_product_keeps_orders [of price_field secure k' img f' rq' s''] by (simp_all add: s''_def)
  have fields: "total_price ord = fmul (price p) q" "user_id ord = uid cu"
      "status ord = ''Pending''" "order_id itm = oid ord" "product_id itm = pid p"
      "quantity itm = q" "price_at_order itm = price p"
    by (simp_all add: ord_def itm_def)
  have priced: "map_option price (get_product (snd (snd (edit_product price_field secure k img f' rq' s''))) k) = Some v"
    if h: "current_user (s\<lparr>session_user := who\<rparr>) = Some a \<and> is_admin a \<and>
            validate_on_submit rq' (product_form_ok price_field f') \<and>
            price_field (f_price f') = Some v \<and> \<not> truthy img"
  proof -
    have c: "current_user s'' = Some a"
      using h by (cases who) (simp_all add: s''_def current_user_def get_user_def)
    have g: "get_product s'' k = Some p"
      using assms(2) by (simp add: s''_def get_product_def)
    from h have a: "is_admin a" and v: "validate_on_submit rq' (product_form_ok price_field f')"
      and pf: "price_field (f_price f') = Some v" and i: "\<not> truthy img" by blast+
    show ?thesis
      by (simp add: edit_product_sets_price [OF c a g v pf i])
  qed
  show ?thesis
    apply (rule exI [of _ q], rule exI, rule exI [of _ ord], rule exI [of _ itm])
    using q run fresh one later fields priced unfolding s'_def s''_def by blast
qed

theorem place_order_snapshot_witness:
  "current_user (shop (Some 2)) = Some bob \<and> get_product (shop (Some 2)) 1 = Some ring \<and>
   validate_on_submit post_rq (order_form_ok order3) \<and>
   current_user ((shop (Some 2))\<lparr>session_user := Some 1\<rparr>) = Some alice \<and> is_admin alice \<and>
   validate_on_submit edit_rq (product_form_ok toy_price ring_edit) \<and>
   toy_price (f_price ring_edit) = Some 150 \<and> \<not> truthy None \<and>
   (\<exists>ns ord itm.
      product_detail exact_mul 1 order3 post_rq (shop (Some 2)) =
        (Redirect UserProfile, ns,
         (shop (Some 2))\<lparr>tbl_order := [order1, ord], tbl_order_item := [item1, itm]\<rparr>) \<and>
      total_price ord = 360 \<and> quantity itm = 3 \<and> price_at_order itm = 120 \<and>
      order_id itm = oid ord \<and>
      map_option price (get_product (snd (snd (edit_product toy_price toy_secure 1 None ring_edit edit_rq
         ((shop (Some 2))\<lparr>tbl_order := [order1, ord], tbl_order_item := [item1, itm],
                          session_user := Some 1\<rparr>)))) 1) = Some 150 \<and>
      tbl_order (snd (snd (edit_product toy_price toy_secure 1 None ring_edit edit_rq
         ((shop (Some 2))\<lparr>tbl_order := [order1, ord], tbl_order_item := [item1, itm],
                          session_user := Some 1\<rparr>)))) = [order1, ord] \<and>
      tbl_order_item (snd (snd (edit_product toy_price toy_secure 1 None ring_edit edit_rq
         ((shop (Some 2))\<lparr>tbl_order := [order1, ord], tbl_order_item := [item1, itm],
                          session_user := Some 1\<rparr>)))) = [item1, itm])"
proof -
  have g: "get_product (shop (Some 2)) 1 = Some ring" by (rule get_product_shop)
  have c: "current_user ((shop (Some 2))\<lparr>session_user := Some 1\<rparr>) = Some alice"
    by (simp add: current_user_def get_user_def shop_def alice_def)
  have a: "is_admin alice" by (simp add: alice_def)
  have pf: "toy_price (f_price ring_edit) = Some 150"
    by (simp add: toy_price_def ring_edit_def py_int_def strip_def is_space_def digit_val_def)
  have v: "validate_on_submit edit_rq (product_form_ok toy_price ring_edit)"
    using pf by (simp add: validate_on_submit_def edit_rq_def product_form_ok_def)
      (simp add: ring_edit_def data_required_def strip_def is_space_def length_ok_def
         category_choices_def)
  have i: "\<not> truthy None" by (simp add: truthy_def)
  from place_order_snapshot [OF current_user_shop_bob g order3_submitted,
      of exact_mul toy_price toy_secure 1 None ring_edit edit_rq "Some 1" alice 150]
  obtain q ns ord itm where
      q: "py_int (f_quantity order3) = Some q"
    and run: "product_detail exact_mul 1 order3 post_rq (shop (Some 2)) =
        (Redirect UserProfile, ns,
         (shop (Some 2))\<lparr>tbl_order := tbl_order (shop (Some 2)) @ [ord],
                          tbl_order_item := tbl_order_item (shop (Some 2)) @ [itm]\<rparr>)"
    and f: "total_price ord = exact_mul (price ring) q" "quantity itm = q"
           "price_at_order itm = price ring" "order_id itm = oid ord"
    and l1: "tbl_order (snd (snd (edit_product toy_price toy_secure 1 None ring_edit edit_rq
              ((shop (Some 2))\<lparr>tbl_order := tbl_order (shop (Some 2)) @ [ord],
                 tbl_order_item := tbl_order_item (shop (Some 2)) @ [itm],
                 session_user := Some 1\<rparr>)))) = tbl_order (shop (Some 2)) @ [ord]"
    and l2: "tbl_order_item (snd (snd (edit_product toy_price toy_secure 1 None ring_edit edit_rq
              ((shop (Some 2))\<lparr>tbl_order := tbl_order (shop (Some 2)) @ [ord],
                 tbl_order_item := tbl_order_item (shop (Some 2)) @ [itm],
                 session_user := Some 1\<rparr>)))) = tbl_order_item (shop (Some 2)) @ [itm]"
    and pr: "current_user ((shop (Some 2))\<lparr>session_user := Some 1\<rparr>) = Some alice \<and> is_admin alice \<and>
            validate_on_submit edit_rq (product_form_ok toy_price ring_edit) \<and>
            toy_price (f_price ring_edit) = Some 150 \<and> \<not> truthy None \<longrightarrow>
              map_option price (get_product (snd (snd (edit_product toy_price toy_secure 1 None ring_edit edit_rq
                ((shop (Some 2))\<lparr>tbl_order := tbl_order (shop (Some 2)) @ [ord],
                   tbl_order_item := tbl_order_item (shop (Some 2)) @ [itm],
                   session_user := Some 1\<rparr>)))) 1) = Some 150 \<and>
              total_price ord = exact_mul (price ring) q \<and> price_at_order itm = price ring"
    by blast
  from q have q3: "q = 3" by (simp add: order3_def py_int_3)
  have t: "tbl_order (shop (Some 2)) = [order1]" "tbl_order_item (shop (Some 2)) = [item1]"
    by (simp_all add: shop_def)
  have p: "price ring = 120" by (simp add: ring_def)
  from pr c a v pf i have pr': "map_option price (get_product (snd (snd (edit_product toy_price toy_secure 1 None ring_edit edit_rq
                ((shop (Some 2))\<lparr>tbl_order := tbl_order (shop (Some 2)) @ [ord],
                   tbl_order_item := tbl_order_item (shop (Some 2)) @ [itm],
                   session_user := Some 1\<rparr>)))) 1) = Some 150" by blast
  have tot: "total_price ord = 360" using f(1) by (simp add: q3 p exact_mul_def)
  have "product_detail exact_mul 1 order3 post_rq (shop (Some 2)) =
        (Redirect UserProfile, ns,
         (shop (Some 2))\<lparr>tbl_order := [order1, ord], tbl_order_item := [item1, itm]\<rparr>) \<and>
      total_price ord = 360 \<and> quantity itm = 3 \<and> price_at_order itm = 120 \<and>
      order_id itm = oid ord \<and>
      map_option price (get_product (snd (snd (edit_product toy_price toy_secure 1 None ring_edit edit_rq
         ((shop (Some 2))\<lparr>tbl_order := [order1, ord], tbl_order_item := [item1, itm],
                          session_user := Some 1\<rparr>)))) 1) = Some 150 \<and>
      tbl_order (snd (snd (edit_product toy_price toy_secure 1 None ring_edit edit_rq
         ((shop (Some 2))\<lparr>tbl_order := [order1, ord], tbl_order_item := [item1, itm],
                          session_user := Some 1\<rparr>)))) = [order1, ord] \<and>
      tbl_order_item (snd (snd (edit_product toy_price toy_secure 1 None ring_edit edit_rq
         ((shop (Some 2))\<lparr>tbl_order := [order1, ord], tbl_order_item := [item1, itm],
                          session_user := Some 1\<rparr>)))) = [item1, itm]"
    using run f(2-4) tot pr' l1 l2 unfolding t q3 p by simp
  then have "\<exists>ns ord itm. product_detail exact_mul 1 order3 post_rq (shop (Some 2)) =
        (Redirect UserProfile, ns,
         (shop (Some 2))\<lparr>tbl_order := [order1, ord], tbl_order_item := [item1, itm]\<rparr>) \<and>
      total_price ord = 360 \<and> quantity itm = 3 \<and> price_at_order itm = 120 \<and>
      order_id itm = oid ord \<and>
      map_option price (get_product (snd (snd (edit_product toy_price toy_secure 1 None ring_edit edit_rq
         ((shop (Some 2))\<lparr>tbl_order := [order1, ord], tbl_order_item := [item1, itm],
                          session_user := Some 1\<rparr>)))) 1) = Some 150 \<and>
      tbl_order (snd (snd (edit_product toy_price toy_secure 1 None ring_edit edit_rq
         ((shop (Some 2))\<lparr>tbl_order := [order1, ord], tbl_order_item := [item1, itm],
                          session_user := Some 1\<rparr>)))) = [order1, ord] \<and>
      tbl_order_item (snd (snd (edit_product toy_price toy_secure 1 None ring_edit edit_rq
         ((shop (Some 2))\<lparr>tbl_order := [order1, ord], tbl_order_item := [item1, itm],
                          session_user := Some 1\<rparr>)))) = [item1, itm]"
    by blast
  with current_user_shop_bob g order3_submitted c a v pf i show ?thesis by blast
qed

section \<open>Registration\<close>

lemma find_mem_not_None: "u \<in> set us \<Longrightarrow> P u \<Longrightarrow> find P us \<noteq> None"
  by (auto simp: find_None_iff)

text \<open>
  Claim C6. A registration whose username or whose email is that of a user of the
  table is refused, whatever else the form holds and whatever the request: the answer
  is the sign-up page again (or, from a session that is already logged in, the redirect
  to the home page), without a notice, and the state is the one before the request.
  So the table of users has no new row and every row of it is as it was.
\<close>

theorem signup_rejects_taken_name_or_email:
  assumes "u \<in> set (tbl_user s)"
    and "f_username f = username u \<or> f_email f = email u"
  shows "signup email_ok gen f rq s =
           (if current_user s = None then Render SignupView else Redirect Home, [], s) \<and>
         tbl_user (snd (snd (signup email_ok gen f rq s))) = tbl_user s"
proof -
  have "\<not> (validate_username s (f_username f) \<and> validate_email s (f_email f))"
  proof (cases "f_username f = username u")
    case True
    with assms(1) have "find (\<lambda>v. username v = f_username f) (tbl_user s) \<noteq> None"
      by (intro find_mem_not_None [of u]) simp_all
    then show ?thesis by (simp add: validate_username_def)
  next
    case False
    with assms(2) have "f_email f = email u" by simp
    with assms(1) have "find (\<lambda>v. email v = f_email f) (tbl_user s) \<noteq> None"
      by (intro find_mem_not_None [of u]) simp_all
    then show ?thesis by (simp add: validate_email_def)
  qed
  then have "\<not> validate_on_submit rq (registration_form_ok email_ok s f)"
    by (auto simp: validate_on_submit_def registration_form_ok_def)
  then have "signup email_ok gen f rq s =
           (if current_user s = None then Render SignupView else Redirect Home, [], s)"
    by (simp add: signup_def)
  then show ?thesis by simp
qed

theorem signup_rejects_taken_name_or_email_witness:
  "bob \<in> set (tbl_user (shop None)) \<and> f_username bob_again = username bob \<and>
   f_email bob_again \<noteq> email bob \<and>
   signup toy_email_ok toy_hash bob_again signup_rq (shop None) =
     (Render SignupView, [], shop None) \<and>
   signup toy_email_ok toy_hash carol_form signup_rq (shop None) =
     (Redirect (LoginPage None),
      [(''success'', ''Your account has been created! You can now log in.'')],
      (shop None)\<lparr>tbl_user := [alice, bob, carol]\<rparr>)"
proof -
  have m: "bob \<in> set (tbl_user (shop None))" by (simp add: shop_def)
  have n: "f_username bob_again = username bob" "f_email bob_again \<noteq> email bob"
    by (simp_all add: bob_again_def bob_def)
  from n(1) have d: "f_username bob_again = username bob \<or> f_email bob_again = email bob" ..
  have 1: "signup toy_email_ok toy_hash bob_again signup_rq (shop None) =
     (Render SignupView, [], shop None)"
    using signup_rejects_taken_name_or_email [OF m d, of toy_email_ok toy_hash signup_rq]
      current_user_shop_anonymous by simp
  have ok: "validate_on_submit signup_rq (registration_form_ok toy_email_ok (shop None) carol_form)"
    by (simp add: validate_on_submit_def signup_rq_def registration_form_ok_def carol_form_def
        data_required_def strip_def is_space_def length_ok_def toy_email_ok_def
        validate_username_def validate_email_def shop_def alice_def bob_def)
  have k: "next_id (map uid (tbl_user (shop None))) = 3"
    by (simp add: next_id_def shop_def alice_def bob_def)
  have 2: "signup toy_email_ok toy_hash carol_form signup_rq (shop None) =
     (Redirect (LoginPage None),
      [(''success'', ''Your account has been created! You can now log in.'')],
      (shop None)\<lparr>tbl_user := [alice, bob, carol]\<rparr>)"
    using current_user_shop_anonymous ok
    by (simp add: signup_def k) (simp add: carol_def carol_form_def toy_hash_def shop_def)
  from m n 1 2 show ?thesis by blast
qed

section \<open>Reading a conversation\<close>

lemma is_read_update_same: "is_read m \<Longrightarrow> m\<lparr>is_read := True\<rparr> = m"
  by (cases m) simp

lemma mark_read_conv:
  "(if in_conversation a b m then mark_read b a m else m) =
   (if sender_id m = b \<and> receiver_id m = Some a then m\<lparr>is_read := True\<rparr> else m)"
proof (cases "sender_id m = b \<and> receiver_id m = Some a")
  case True
  then have c: "in_conversation a b m" by (simp add: in_conversation_def)
  show ?thesis
  proof (cases "is_read m")
    case True
    then have "m\<lparr>is_read := True\<rparr> = m" by (rule is_read_update_same)
    with True c \<open>sender_id m = b \<and> receiver_id m = Some a\<close> show ?thesis
      by (simp add: mark_read_def)
  next
    case False
    with c \<open>sender_id m = b \<and> receiver_id m = Some a\<close> show ?thesis
      by (simp add: mark_read_def)
  qed
next
  case False
  then have "mark_read b a m = m" by (auto simp: mark_read_def)
  with False show ?thesis by auto
qed

lemma get_user_uid: "get_user s i = Some u \<Longrightarrow> uid u = i"
  unfolding get_user_def by (drule find_Some_holds) simp

text \<open>
  Claim C7. An administrator \<open>cu\<close> opens the conversation with the user \<open>su\<close> of key
  \<open>i\<close>, who is no administrator. In the state after the request every message that
  was in the table is in the same place; a message sent by \<open>su\<close> to \<open>cu\<close> has
  \<open>is_read\<close> set, and every other message, in particular every message from \<open>cu\<close> to
  \<open>su\<close>, is the row it was, with all its columns. Nothing but the table of messages
  changes. When the request sends no valid message form (a GET, say) the table is
  exactly these rows; otherwise the one new message follows them.
\<close>

theorem admin_view_marks_read:
  assumes "current_user s = Some cu" and "is_admin cu"
    and "get_user s i = Some su" and "\<not> is_admin su" and "i \<noteq> 0"
  shows "take (length (tbl_message s)) (tbl_message (snd (snd (admin_messages (Some i) f rq s)))) =
           map (\<lambda>m. if sender_id m = i \<and> receiver_id m = Some (uid cu)
                     then m\<lparr>is_read := True\<rparr> else m) (tbl_message s) \<and>
         (snd (snd (admin_messages (Some i) f rq s)))\<lparr>tbl_message := tbl_message s\<rparr> = s \<and>
         (\<not> validate_on_submit rq (message_form_ok f) \<longrightarrow>
            tbl_message (snd (snd (admin_messages (Some i) f rq s))) =
              map (\<lambda>m. if sender_id m = i \<and> receiver_id m = Some (uid cu)
                        then m\<lparr>is_read := True\<rparr> else m) (tbl_message s))"
proof -
  define marked where "marked = map (\<lambda>m. if sender_id m = i \<and> receiver_id m = Some (uid cu)
                     then m\<lparr>is_read := True\<rparr> else m) (tbl_message s)"
  have i: "uid su = i" using assms(3) by (rule get_user_uid)
  have gate: "admin_messages (Some i) f rq s = admin_messages_body (Some i) f rq s"
    using assms(1,2) by (simp add: admin_messages_def admin_required_def login_required_def)
  have m: "map (\<lambda>m. if in_conversation (uid cu) (uid su) m
                     then mark_read (uid su) (uid cu) m else m)
             (tbl_message s) = marked"
    unfolding marked_def by (simp only: mark_read_conv i)
  have len: "length marked = length (tbl_message s)" by (simp add: marked_def)
  show ?thesis
  proof (cases "validate_on_submit rq (message_form_ok f)")
    case True
    then have "snd (snd (admin_messages_body (Some i) f rq s)) =
        s\<lparr>tbl_message := marked @
           [\<lparr>mid = next_id (map mid marked), sender_id = uid cu, receiver_id = Some (uid su),
             message_text = f_message_text f, timestamp = now rq, is_read = False\<rparr>]\<rparr>"
      using assms(1,3,4,5) by (simp add: admin_messages_body_def Let_def m)
    then show ?thesis
      using True len by (simp add: gate marked_def)
  next
    case False
    then have "snd (snd (admin_messages_body (Some i) f rq s)) = s\<lparr>tbl_message := marked\<rparr>"
      using assms(1,3,4,5) by (simp add: admin_messages_body_def Let_def m)
    then show ?thesis
      using False len by (simp add: gate marked_def)
  qed
qed

theorem admin_view_marks_read_witness:
  "current_user (shop (Some 1)) = Some alice \<and> is_admin alice \<and>
   get_user (shop (Some 1)) 2 = Some bob \<and> \<not> is_admin bob \<and> (2::int) \<noteq> 0 \<and>
   \<not> validate_on_submit get_rq (message_form_ok reply_form) \<and>
   tbl_message (snd (snd (admin_messages (Some 2) reply_form get_rq (shop (Some 1))))) =
     [msg1\<lparr>is_read := True\<rparr>, msg2] \<and>
   snd (snd (admin_messages (Some 2) reply_form get_rq (shop (Some 1)))) =
     (shop (Some 1))\<lparr>tbl_message := [msg1\<lparr>is_read := True\<rparr>, msg2]\<rparr>"
proof -
  have a: "is_admin alice" by (simp add: alice_def)
  have g: "get_user (shop (Some 1)) 2 = Some bob"
    by (simp add: get_user_def shop_def alice_def bob_def)
  have b: "\<not> is_admin bob" by (simp add: bob_def)
  have z: "(2::int) \<noteq> 0" by simp
  have v: "\<not> validate_on_submit get_rq (message_form_ok reply_form)"
    by (simp add: validate_on_submit_def get_rq_def)
  note th = admin_view_marks_read [OF current_user_shop_alice a g b z, of reply_form get_rq]
  have t: "tbl_message (shop (Some 1)) = [msg1, msg2]" by (simp add: shop_def)
  have ms: "map (\<lambda>m. if sender_id m = 2 \<and> receiver_id m = Some (uid alice)
                     then m\<lparr>is_read := True\<rparr> else m) [msg1, msg2] =
            [msg1\<lparr>is_read := True\<rparr>, msg2]"
    by (simp add: msg1_def msg2_def alice_def)
  from th have "\<not> validate_on_submit get_rq (message_form_ok reply_form) \<longrightarrow>
      tbl_message (snd (snd (admin_messages (Some 2) reply_form get_rq (shop (Some 1))))) =
        map (\<lambda>m. if sender_id m = 2 \<and> receiver_id m = Some (uid alice)
                  then m\<lparr>is_read := True\<rparr> else m) (tbl_message (shop (Some 1)))"
    by blast
  with v have "tbl_message (snd (snd (admin_messages (Some 2) reply_form get_rq (shop (Some 1))))) =
        map (\<lambda>m. if sender_id m = 2 \<and> receiver_id m = Some (uid alice)
                  then m\<lparr>is_read := True\<rparr> else m) (tbl_message (shop (Some 1)))"
    by blast
  then have 1: "tbl_message (snd (snd (admin_messages (Some 2) reply_form get_rq (shop (Some 1))))) =
     [msg1\<lparr>is_read := True\<rparr>, msg2]"
    by (simp only: t ms)
  from th have fr: "(snd (snd (admin_messages (Some 2) reply_form get_rq (shop (Some 1)))))
      \<lparr>tbl_message := tbl_message (shop (Some 1))\<rparr> = shop (Some 1)" by blast
  have 2: "snd (snd (admin_messages (Some 2) reply_form get_rq (shop (Some 1)))) =
     (shop (Some 1))\<lparr>tbl_message := [msg1\<lparr>is_read := True\<rparr>, msg2]\<rparr>"
  proof -
    define r where "r = snd (snd (admin_messages (Some 2) reply_form get_rq (shop (Some 1))))"
    have "r = r\<lparr>tbl_message := tbl_message r\<rparr>" by simp
    also have "\<dots> = (r\<lparr>tbl_message := tbl_message (shop (Some 1))\<rparr>)\<lparr>tbl_message := tbl_message r\<rparr>"
      by simp
    also have "\<dots> = (shop (Some 1))\<lparr>tbl_message := [msg1\<lparr>is_read := True\<rparr>, msg2]\<rparr>"
      using fr 1 unfolding r_def by simp
    finally show ?thesis unfolding r_def .
  qed
  from current_user_shop_alice a g b z v 1 2 show ?thesis by blast
qed

section \<open>A new product has an image\<close>

lemma allowed_file_chain: "allowed_file ''chain.PNG''"
  by (simp add: allowed_file_def rsplit_ext_def lower_def lower_char_def ascii_lower_char_def
      ALLOWED_EXTENSIONS_def)

lemma chain_form_submitted: "validate_on_submit add_rq (product_form_ok toy_price chain_form)"
proof -
  have "toy_price (f_price chain_form) = Some 80"
    by (simp add: toy_price_def chain_form_def py_int_def strip_def is_space_def digit_val_def)
  then show ?thesis
    by (simp add: validate_on_submit_def add_rq_def product_form_ok_def)
      (simp add: chain_form_def data_required_def strip_def is_space_def length_ok_def
         category_choices_def)
qed

text \<open>
  Claim C9. Whatever the request and whoever sends it, \<open>add_product\<close> either leaves
  the table of products as it was or appends one product, and then the request had a
  file whose name is allowed and the product's \<open>image_filename\<close> is the secured name
  of that file, which is in the upload folder: no product is created with a NULL
  image. When the file is missing (no such part, or an empty file name) or its name is
  not allowed, the state is the one before the request, and an administrator whose
  form validates gets the form again with the notice of category warning.
\<close>

theorem add_product_image_not_null:
  assumes "add_product price_field secure img f rq s = (r, ns, s')"
  shows "(tbl_product s' = tbl_product s \<or>
          (\<exists>t p. img = Some t \<and> t \<noteq> [] \<and> allowed_file t \<and>
                 tbl_product s' = tbl_product s @ [p] \<and>
                 image_filename p = Some (secure t) \<and> secure t \<in> upload_folder s')) \<and>
         (img = None \<or> img = Some [] \<or> (\<exists>t. img = Some t \<and> \<not> allowed_file t) \<longrightarrow>
            s' = s \<and>
            (\<forall>a. current_user s = Some a \<and> is_admin a \<and>
                  validate_on_submit rq (product_form_ok price_field f) \<longrightarrow>
                  r = Render AddProductView \<and>
                  ns = [(''warning'', ''Invalid image file or no file uploaded. Please upload a PNG, JPG, JPEG, or GIF.'')]))"
proof (cases "\<exists>a. current_user s = Some a \<and> is_admin a")
  case False
  then have "snd (snd (add_product price_field secure img f rq s)) = s"
    by (auto simp: add_product_def admin_required_def login_required_def split: option.splits)
  with assms have "s' = s" by simp
  with False show ?thesis by auto
next
  case True
  then obtain a where a: "current_user s = Some a" "is_admin a" by blast
  then have gate: "add_product price_field secure img f rq s =
                   add_product_body price_field secure img f rq s"
    by (simp add: add_product_def admin_required_def login_required_def)
  show ?thesis
  proof (cases "validate_on_submit rq (product_form_ok price_field f)")
    case False
    then have "add_product_body price_field secure img f rq s = (Render AddProductView, [], s)"
      by (simp add: add_product_body_def)
    with assms gate have "s' = s" by simp
    with False show ?thesis by auto
  next
    case valid: True
    then obtain v where v: "price_field (f_price f) = Some v"
      by (auto simp: validate_on_submit_def product_form_ok_def)
    show ?thesis
    proof (cases "\<exists>t. img = Some t \<and> t \<noteq> [] \<and> allowed_file t")
      case False
      then have nb: "(truthy img \<and> (case img of Some t \<Rightarrow> allowed_file t | None \<Rightarrow> False)) = False"
        by (auto simp: truthy_def split: option.splits)
      from valid have "add_product_body price_field secure img f rq s =
          (Render AddProductView,
           [(''warning'', ''Invalid image file or no file uploaded. Please upload a PNG, JPG, JPEG, or GIF.'')],
           s)"
        by (simp add: add_product_body_def nb)
      with assms gate have "r = Render AddProductView"
        "ns = [(''warning'', ''Invalid image file or no file uploaded. Please upload a PNG, JPG, JPEG, or GIF.'')]"
        "s' = s" by simp_all
      then show ?thesis by simp
    next
      case True
      then obtain t where t: "img = Some t" "t \<noteq> []" "allowed_file t" by blast
      define p where "p = \<lparr>pid = next_id (map pid (tbl_product s)), pname = f_name f,
          category = f_category f, material = f_material f, price = v,
          description = f_description f, image_filename = Some (secure t),
          date_added = now rq\<rparr>"
      have "add_product_body price_field secure img f rq s =
          (Redirect AdminProducts, [(''success'', ''Product added successfully!'')],
           s\<lparr>tbl_product := tbl_product s @ [p],
             upload_folder := insert (secure t) (upload_folder s)\<rparr>)"
        using valid v t by (simp add: add_product_body_def truthy_def Let_def p_def)
      with assms gate have s': "s' = s\<lparr>tbl_product := tbl_product s @ [p],
             upload_folder := insert (secure t) (upload_folder s)\<rparr>" by simp
      have 1: "img = Some t \<and> t \<noteq> [] \<and> allowed_file t \<and>
                 tbl_product s' = tbl_product s @ [p] \<and>
                 image_filename p = Some (secure t) \<and> secure t \<in> upload_folder s'"
        using t by (simp add: s' p_def)
      have 2: "\<not> (img = None \<or> img = Some [] \<or> (\<exists>t. img = Some t \<and> \<not> allowed_file t))"
        using t by simp
      from 1 2 show ?thesis by blast
    qed
  qed
qed

theorem add_product_image_not_null_witness:
  "add_product toy_price toy_secure (Some ''chain.PNG'') chain_form add_rq (shop (Some 1)) =
     (Redirect AdminProducts, [(''success'', ''Product added successfully!'')],
      (shop (Some 1))\<lparr>tbl_product := [ring, chain],
                       upload_folder := {''chain.PNG'', ''ring.png''}\<rparr>) \<and>
   image_filename chain = Some ''chain.PNG'' \<and>
   \<not> allowed_file ''chain.pdf'' \<and>
   add_product toy_price toy_secure (Some ''chain.pdf'') chain_form add_rq (shop (Some 1)) =
     (Render AddProductView,
      [(''warning'', ''Invalid image file or no file uploaded. Please upload a PNG, JPG, JPEG, or GIF.'')],
      shop (Some 1)) \<and>
   add_product toy_price toy_secure None chain_form add_rq (shop (Some 1)) =
     (Render AddProductView,
      [(''warning'', ''Invalid image file or no file uploaded. Please upload a PNG, JPG, JPEG, or GIF.'')],
      shop (Some 1))"
proof -
  have a: "is_admin alice" by (simp add: alice_def)
  have gate: "add_product toy_price toy_secure img chain_form add_rq (shop (Some 1)) =
              add_product_body toy_price toy_secure img chain_form add_rq (shop (Some 1))" for img
    using current_user_shop_alice a
    by (simp add: add_product_def admin_required_def login_required_def)
  have pf: "toy_price (f_price chain_form) = Some 80"
    by (simp add: toy_price_def chain_form_def py_int_def strip_def is_space_def digit_val_def)
  have k: "next_id (map pid (tbl_product (shop (Some 1)))) = 2"
    by (simp add: next_id_def shop_def ring_def)
  have sec: "toy_secure ''chain.PNG'' = ''chain.PNG''" by (simp add: toy_secure_def)
  have 1: "add_product toy_price toy_secure (Some ''chain.PNG'') chain_form add_rq (shop (Some 1)) =
     (Redirect AdminProducts, [(''success'', ''Product added successfully!'')],
      (shop (Some 1))\<lparr>tbl_product := [ring, chain],
                       upload_folder := {''chain.PNG'', ''ring.png''}\<rparr>)"
    using chain_form_submitted allowed_file_chain pf
    by (simp add: gate add_product_body_def truthy_def Let_def k sec)
      (simp add: shop_def chain_def chain_form_def add_rq_def)
  have 2: "image_filename chain = Some ''chain.PNG''" by (simp add: chain_def)
  have 3: "\<not> allowed_file ''chain.pdf''"
    by (simp add: allowed_file_def rsplit_ext_def lower_def lower_char_def ascii_lower_char_def
        ALLOWED_EXTENSIONS_def)
  obtain r ns s' where o: "add_product toy_price toy_secure (Some ''chain.pdf'') chain_form add_rq
      (shop (Some 1)) = (r, ns, s')" by (metis prod_cases3)
  from 3 have bad: "Some ''chain.pdf'' = None \<or> Some ''chain.pdf'' = Some [] \<or>
      (\<exists>t. Some ''chain.pdf'' = Some t \<and> \<not> allowed_file t)" by simp
  from add_product_image_not_null [OF o] bad current_user_shop_alice a chain_form_submitted
  have "s' = shop (Some 1) \<and> r = Render AddProductView \<and>
        ns = [(''warning'', ''Invalid image file or no file uploaded. Please upload a PNG, JPG, JPEG, or GIF.'')]"
    by blast
  with o have 4: "add_product toy_price toy_secure (Some ''chain.pdf'') chain_form add_rq (shop (Some 1)) =
     (Render AddProductView,
      [(''warning'', ''Invalid image file or no file uploaded. Please upload a PNG, JPG, JPEG, or GIF.'')],
      shop (Some 1))" by simp
  have 5: "add_product toy_price toy_secure None chain_form add_rq (shop (Some 1)) =
     (Render AddProductView,
      [(''warning'', ''Invalid image file or no file uploaded. Please upload a PNG, JPG, JPEG, or GIF.'')],
      shop (Some 1))"
    using chain_form_submitted by (simp add: gate add_product_body_def truthy_def)
  from 1 2 3 4 5 show ?thesis by blast
qed

section \<open>The search of the catalogue\<close>

lemma ring_fields:
  "pname ring = ''Gold Ring''" "description ring = ''A plain band''"
  "category ring = ''Ring''" "material ring = ''Gold''"
  by (simp_all add: ring_def)

text \<open>
  Claim C2 reads the search as a substring match. The query gives the search text to
  \<open>LIKE\<close> between two percent signs and escapes nothing, so an underscore of the text
  stands for any one character. In the shop the search \<open>_old\<close> lists the ring, whose
  name \<open>Gold Ring\<close> has \<open>Gold\<close> but none of whose four text columns contains
  \<open>_old\<close>: the listing holds a product that does not meet the search predicate of
  the claim.
\<close>

theorem search_wildcard_lists_non_substring:
  "products_query exact_le underscore_search (tbl_product (shop None)) = [ring] \<and>
   search_hit ''_old'' ring \<and> \<not> spec_search_hit ''_old'' ring"
proof -
  have hit: "search_hit ''_old'' ring"
    by (simp add: search_hit_def ilike_def ascii_lower_char_def ring_fields)
  have spec: "\<not> spec_search_hit ''_old'' ring"
    by (simp add: spec_search_hit_def substring_of_def ascii_lower_char_def ring_fields upt_rec)
  have "products_query exact_le underscore_search (tbl_product (shop None)) = [ring]"
    using hit by (simp add: products_query_def underscore_search_def shop_def)
  with hit spec show ?thesis by blast
qed

section \<open>Messages of the administrator\<close>

lemma admin_messages_no_counterparty:
  assumes "current_user s = Some cu" and "is_admin cu"
    and "sel = None \<or> sel = Some 0 \<or> (\<exists>i. sel = Some i \<and> get_user s i = None)"
  shows "admin_messages sel f rq s =
           (Render (AdminMessagesView (users_with_messages cu s) None []), [], s)"
proof -
  have gate: "admin_messages sel f rq s = admin_messages_body sel f rq s"
    using assms(1,2) by (simp add: admin_messages_def admin_required_def login_required_def)
  have "(case sel of None \<Rightarrow> None | Some i \<Rightarrow> if i \<noteq> 0 then get_user s i else None) = None"
    using assms(3) by (auto split: option.splits)
  then show ?thesis
    using assms(1) by (simp add: gate admin_messages_body_def Let_def)
qed

text \<open>
  Claim C10 counts a \<open>user_id\<close> that refers to an administrator's account among the
  requests that create no message. The handler checks \<open>is_admin\<close> of the selected
  user before it marks messages as read, but not before it sends: in the shop the
  administrator posts a valid message with \<open>user_id=1\<close>, her own account, and the
  message is stored and announced by a notice of category success. (With no
  \<open>user_id\<close>, with 0, or with a key that no user has, nothing is created and no
  notice is produced.)
\<close>

theorem admin_message_to_admin_is_sent:
  "is_admin alice \<and> get_user (shop (Some 1)) 1 = Some alice \<and>
   admin_messages (Some 1) reply_form reply_rq (shop (Some 1)) =
     (Redirect (AdminMessages 1), [(''success'', ''Message sent to admin!'')],
      (shop (Some 1))\<lparr>tbl_message := [msg1, msg2, msg3]\<rparr>)"
proof -
  have a: "is_admin alice" by (simp add: alice_def)
  have g: "get_user (shop (Some 1)) 1 = Some alice"
    by (simp add: get_user_def shop_def alice_def)
  have gate: "admin_messages (Some 1) reply_form reply_rq (shop (Some 1)) =
              admin_messages_body (Some 1) reply_form reply_rq (shop (Some 1))"
    using current_user_shop_alice a
    by (simp add: admin_messages_def admin_required_def login_required_def)
  have v: "validate_on_submit reply_rq (message_form_ok reply_form)"
    by (simp add: validate_on_submit_def reply_rq_def message_form_ok_def reply_form_def
        data_required_def strip_def is_space_def length_ok_def)
  have k: "next_id (map mid (tbl_message (shop (Some 1)))) = 3"
    by (simp add: next_id_def shop_def msg1_def msg2_def)
  have "admin_messages_body (Some 1) reply_form reply_rq (shop (Some 1)) =
     (Redirect (AdminMessages 1), [(''success'', ''Message sent to admin!'')],
      (shop (Some 1))\<lparr>tbl_message := [msg1, msg2, msg3]\<rparr>)"
    using current_user_shop_alice g a v
    by (simp add: admin_messages_body_def Let_def k)
      (simp add: alice_def msg3_def reply_form_def reply_rq_def shop_def)
  with a g gate show ?thesis by simp
qed

end
